theory Spec2Isabelle
  imports Main
begin

section \<open>The Product service: entity model, validation and listing queries\<close>

text \<open>
  A shallow embedding of \<^verbatim>\<open>service/models.py\<close> (the \<^verbatim>\<open>Product\<close> entity, its
  \<^verbatim>\<open>serialize\<close>/\<^verbatim>\<open>deserialize\<close> contract and its queries) and of the listing handler
  \<^verbatim>\<open>list_products\<close> of \<^verbatim>\<open>service/routes.py\<close>.

  Python objects are values of the datatype \<open>pyval\<close>; exceptions are values of \<open>pyerr\<close>
  and a call that may raise returns a sum with the exception on the left.  The library
  functions the source calls (\<^verbatim>\<open>Decimal(...)\<close>, \<^verbatim>\<open>str(Decimal)\<close>, \<^verbatim>\<open>str.strip\<close>,
  \<^verbatim>\<open>str.upper\<close>, \<^verbatim>\<open>str.lower\<close>, \<^verbatim>\<open>getattr\<close> on the enumeration class) are modelled
  after CPython 3.9.  Strings are lists of 8-bit characters, so the model covers ASCII
  text; the decimal module's internal limits on exponents (beyond \<open>10\<^sup>1\<^sup>8\<close>) are not modelled.
\<close>

subsection \<open>Characters and strings\<close>

definition is_digit :: "char \<Rightarrow> bool" where
  "is_digit c = (48 \<le> (of_char c :: nat) \<and> (of_char c :: nat) \<le> 57)"

definition digit_val :: "char \<Rightarrow> nat" where
  "digit_val c = of_char c - 48"

definition digit_char :: "nat \<Rightarrow> char" where
  "digit_char n = char_of (48 + n)"

text \<open>\<^verbatim>\<open>str(n)\<close> for a natural number and \<^verbatim>\<open>int(s)\<close> for a string of digits.\<close>

fun str_nat :: "nat \<Rightarrow> string" where
  "str_nat n = (if n < 10 then [digit_char n] else str_nat (n div 10) @ [digit_char (n mod 10)])"

declare str_nat.simps [simp del]

definition digits_val :: "string \<Rightarrow> nat" where
  "digits_val s = foldl (\<lambda>a c. 10 * a + digit_val c) 0 s"

text \<open>The format \<^verbatim>\<open>"%+d"\<close>.\<close>

definition format_plus_d :: "int \<Rightarrow> string" where
  "format_plus_d i = (if i < 0 then CHR ''-'' # str_nat (nat (- i)) else CHR ''+'' # str_nat (nat i))"

text \<open>\<^verbatim>\<open>str.isspace\<close> on ASCII: tab to carriage return, the four separators and space.\<close>

definition is_space :: "char \<Rightarrow> bool" where
  "is_space c = (let n = (of_char c :: nat) in (9 \<le> n \<and> n \<le> 13) \<or> (28 \<le> n \<and> n \<le> 32))"

text \<open>\<^verbatim>\<open>s.strip()\<close> and \<^verbatim>\<open>s.strip(chars)\<close>: both ends lose every leading character that
  satisfies the test.\<close>

definition strip_by :: "(char \<Rightarrow> bool) \<Rightarrow> string \<Rightarrow> string" where
  "strip_by P s = rev (dropWhile P (rev (dropWhile P s)))"

definition py_strip :: "string \<Rightarrow> string" where
  "py_strip s = strip_by is_space s"

definition py_strip_chars :: "string \<Rightarrow> string \<Rightarrow> string" where
  "py_strip_chars chars s = strip_by (\<lambda>c. c \<in> set chars) s"

definition ascii_lower :: "char \<Rightarrow> char" where
  "ascii_lower c = (if 65 \<le> (of_char c :: nat) \<and> (of_char c :: nat) \<le> 90
                    then char_of ((of_char c :: nat) + 32) else c)"

definition ascii_upper :: "char \<Rightarrow> char" where
  "ascii_upper c = (if 97 \<le> (of_char c :: nat) \<and> (of_char c :: nat) \<le> 122
                    then char_of ((of_char c :: nat) - 32) else c)"

definition py_lower :: "string \<Rightarrow> string" where
  "py_lower s = map ascii_lower s"

definition py_upper :: "string \<Rightarrow> string" where
  "py_upper s = map ascii_upper s"

text \<open>A name between single quotes, as Python prints type names.\<close>

definition squote :: "string \<Rightarrow> string" where
  "squote s = CHR 0x27 # s @ [CHR 0x27]"

subsection \<open>The enumeration \<^verbatim>\<open>Category\<close>\<close>

datatype Category = UNKNOWN | CLOTHS | FOOD | HOUSEWARES | AUTOMOTIVE | TOOLS

fun Category_name :: "Category \<Rightarrow> string" where
  "Category_name UNKNOWN = ''UNKNOWN''"
| "Category_name CLOTHS = ''CLOTHS''"
| "Category_name FOOD = ''FOOD''"
| "Category_name HOUSEWARES = ''HOUSEWARES''"
| "Category_name AUTOMOTIVE = ''AUTOMOTIVE''"
| "Category_name TOOLS = ''TOOLS''"

fun Category_value :: "Category \<Rightarrow> int" where
  "Category_value UNKNOWN = 0"
| "Category_value CLOTHS = 1"
| "Category_value FOOD = 2"
| "Category_value HOUSEWARES = 3"
| "Category_value AUTOMOTIVE = 4"
| "Category_value TOOLS = 5"

text \<open>The member map of the class: the lookup of a member by its exact name.\<close>

definition Category_member :: "string \<Rightarrow> Category option" where
  "Category_member s =
     map_of (map (\<lambda>c. (Category_name c, c)) [UNKNOWN, CLOTHS, FOOD, HOUSEWARES, AUTOMOTIVE, TOOLS]) s"

subsection \<open>Decimal numbers\<close>

text \<open>
  A \<^verbatim>\<open>decimal.Decimal\<close> is a sign (\<open>True\<close> for negative), a coefficient and an exponent,
  or an infinity, or a NaN (sign, signalling flag, diagnostic payload).
\<close>

datatype decimal =
    Finite bool nat int
  | Infinity bool
  | NaN bool bool nat

definition sign_str :: "bool \<Rightarrow> string" where
  "sign_str s = (if s then ''-'' else [])"

text \<open>\<^verbatim>\<open>Decimal.__str__\<close>: the scientific string of the number.\<close>

fun Decimal_str :: "decimal \<Rightarrow> string" where
  "Decimal_str (Infinity s) = sign_str s @ ''Infinity''"
| "Decimal_str (NaN s sig n) =
     sign_str s @ (if sig then ''sNaN'' else ''NaN'') @ (if n = 0 then [] else str_nat n)"
| "Decimal_str (Finite s n e) =
     (let ds = str_nat n;
          leftdigits = e + int (length ds);
          dotplace = (if e \<le> 0 \<and> leftdigits > - 6 then leftdigits else 1);
          intpart = (if dotplace \<le> 0 then ''0''
                     else if dotplace \<ge> int (length ds)
                       then ds @ replicate (nat (dotplace - int (length ds))) CHR ''0''
                     else take (nat dotplace) ds);
          fracpart = (if dotplace \<le> 0 then CHR ''.'' # replicate (nat (- dotplace)) CHR ''0'' @ ds
                      else if dotplace \<ge> int (length ds) then []
                      else CHR ''.'' # drop (nat dotplace) ds);
          exp = (if leftdigits = dotplace then []
                 else CHR ''E'' # format_plus_d (leftdigits - dotplace))
      in sign_str s @ intpart @ fracpart @ exp)"

text \<open>
  The numeric-string syntax of the decimal module: an optional sign, then digits with an
  optional fraction and an optional exponent, or an infinity, or a NaN with optional
  diagnostic digits; letters match in either case.
\<close>

fun split_sign :: "string \<Rightarrow> bool \<times> string" where
  "split_sign [] = (False, [])"
| "split_sign (c # cs) =
     (if c = CHR ''-'' then (True, cs) else if c = CHR ''+'' then (False, cs) else (False, c # cs))"

definition parse_exponent :: "string \<Rightarrow> int option" where
  "parse_exponent r =
     (case r of
        [] \<Rightarrow> Some 0
      | c # t \<Rightarrow>
          if c = CHR ''E'' \<or> c = CHR ''e'' then
            (case split_sign t of (neg, ds) \<Rightarrow>
               if ds \<noteq> [] \<and> list_all is_digit ds
               then Some (if neg then - int (digits_val ds) else int (digits_val ds))
               else None)
          else None)"

definition parse_number :: "string \<Rightarrow> (string \<times> string \<times> int) option" where
  "parse_number body =
     (let ip = takeWhile is_digit body;
          r1 = dropWhile is_digit body;
          fp = (case r1 of [] \<Rightarrow> [] | c # t \<Rightarrow> if c = CHR ''.'' then takeWhile is_digit t else []);
          r2 = (case r1 of [] \<Rightarrow> [] | c # t \<Rightarrow> if c = CHR ''.'' then dropWhile is_digit t else r1)
      in if ip = [] \<and> fp = [] then None
         else (case parse_exponent r2 of None \<Rightarrow> None | Some ex \<Rightarrow> Some (ip, fp, ex)))"

definition parse_special :: "bool \<Rightarrow> string \<Rightarrow> decimal option" where
  "parse_special sg body =
     (let l = py_lower body in
      if l = ''inf'' \<or> l = ''infinity'' then Some (Infinity sg)
      else if take 3 l = ''nan'' \<and> list_all is_digit (drop 3 l)
        then Some (NaN sg False (digits_val (drop 3 l)))
      else if take 4 l = ''snan'' \<and> list_all is_digit (drop 4 l)
        then Some (NaN sg True (digits_val (drop 4 l)))
      else None)"

definition Decimal_parse :: "string \<Rightarrow> decimal option" where
  "Decimal_parse s =
     (case split_sign s of (sg, body) \<Rightarrow>
        (case parse_number body of
           Some (ip, fp, ex) \<Rightarrow> Some (Finite sg (digits_val (ip @ fp)) (ex - int (length fp)))
         | None \<Rightarrow> parse_special sg body))"

text \<open>
  A binary float is the value of \<^verbatim>\<open>float.as_integer_ratio\<close> with its sign: the ratio
  \<open>n / 2 ^ k\<close> in lowest terms, or an infinity, or a NaN.
\<close>

datatype pyfloat = FloatFinite bool nat nat | FloatInf bool | FloatNaN

fun Decimal_from_float :: "pyfloat \<Rightarrow> decimal" where
  "Decimal_from_float (FloatFinite s n k) = Finite s (n * 5 ^ k) (- int k)"
| "Decimal_from_float (FloatInf s) = Infinity s"
| "Decimal_from_float FloatNaN = NaN False False 0"

definition Decimal_from_int :: "int \<Rightarrow> decimal" where
  "Decimal_from_int i = Finite (i < 0) (nat \<bar>i\<bar>) 0"

text \<open>The characters that occur in the string of a decimal.\<close>

definition dec_char :: "char \<Rightarrow> bool" where
  "dec_char c = (is_digit c \<or> c \<in> set ''-+.EInfinityNaNs'')"

text \<open>A character that is neither white space nor the double quote.\<close>

definition plain_char :: "char \<Rightarrow> bool" where
  "plain_char c = (\<not> is_space c \<and> c \<noteq> CHR 0x22)"

subsection \<open>Python values and exceptions\<close>

datatype pyval =
    PNone
  | PBool bool
  | PInt int
  | PFloat pyfloat
  | PStr string
  | PDec decimal
  | PCat Category
  | PList "pyval list"
  | PDict "(string \<times> pyval) list"

datatype pyerr =
    DataValidationError string
  | AttributeError string
  | KeyError string
  | TypeError string
  | ValueError string
  | InvalidOperation
  | SQLAlchemyError

text \<open>The name of the type of a value, and \<^verbatim>\<open>str(type(v))\<close>.\<close>

fun type_name :: "pyval \<Rightarrow> string" where
  "type_name PNone = ''NoneType''"
| "type_name (PBool b) = ''bool''"
| "type_name (PInt i) = ''int''"
| "type_name (PFloat f) = ''float''"
| "type_name (PStr s) = ''str''"
| "type_name (PDec d) = ''decimal.Decimal''"
| "type_name (PCat c) = ''Category''"
| "type_name (PList xs) = ''list''"
| "type_name (PDict kvs) = ''dict''"

fun type_str :: "pyval \<Rightarrow> string" where
  "type_str (PCat c) = ''<enum '' @ squote ''Category'' @ ''>''"
| "type_str v = ''<class '' @ squote (type_name v) @ ''>''"

text \<open>\<^verbatim>\<open>data[key]\<close> with a string key: a dictionary raises \<^verbatim>\<open>KeyError\<close> on a missing
  key, any other object raises \<^verbatim>\<open>TypeError\<close>.\<close>

fun getitem :: "pyval \<Rightarrow> string \<Rightarrow> pyerr + pyval" where
  "getitem (PDict kvs) k = (case map_of kvs k of None \<Rightarrow> Inl (KeyError k) | Some v \<Rightarrow> Inr v)"
| "getitem (PStr s) k = Inl (TypeError ''string indices must be integers'')"
| "getitem (PList xs) k = Inl (TypeError ''list indices must be integers or slices, not str'')"
| "getitem v k = Inl (TypeError (squote (type_name v) @ '' object is not subscriptable''))"

text \<open>
  \<^verbatim>\<open>Decimal(value)\<close>.  A string is stripped of white space and underscores and parsed,
  and a string outside the syntax raises \<^verbatim>\<open>decimal.InvalidOperation\<close>; integers
  (booleans among them), floats and decimals convert exactly; a list is a triple of sign,
  digits and exponent; anything else raises \<^verbatim>\<open>TypeError\<close>.
\<close>

fun as_long :: "pyval \<Rightarrow> int option" where
  "as_long (PInt i) = Some i"
| "as_long (PBool b) = Some (if b then 1 else 0)"
| "as_long v = None"

fun seq_digits :: "pyval list \<Rightarrow> nat \<Rightarrow> nat option" where
  "seq_digits [] acc = Some acc"
| "seq_digits (v # vs) acc =
     (case as_long v of
        None \<Rightarrow> None
      | Some i \<Rightarrow> if 0 \<le> i \<and> i \<le> 9 then seq_digits vs (10 * acc + nat i) else None)"

datatype seq_exponent = ExpInf | ExpNaN bool | ExpInt int

fun seq_exponent_of :: "pyval \<Rightarrow> pyerr + seq_exponent" where
  "seq_exponent_of (PStr s) =
     (if s = ''F'' then Inr ExpInf
      else if s = ''n'' then Inr (ExpNaN False)
      else if s = ''N'' then Inr (ExpNaN True)
      else Inl (ValueError (''string argument in the third position must be ''
                  @ squote ''F'' @ '', '' @ squote ''n'' @ '' or '' @ squote ''N'')))"
| "seq_exponent_of v =
     (case as_long v of
        None \<Rightarrow> Inl (ValueError ''exponent must be an integer'')
      | Some e \<Rightarrow> Inr (ExpInt e))"

definition Decimal_from_sequence :: "pyval list \<Rightarrow> pyerr + decimal" where
  "Decimal_from_sequence xs =
     (case xs of
        [sg, ds, ex] \<Rightarrow>
          (case as_long sg of
             None \<Rightarrow> Inl (ValueError ''sign must be an integer with the value 0 or 1'')
           | Some s \<Rightarrow>
               if s \<noteq> 0 \<and> s \<noteq> 1 then Inl (ValueError ''sign must be an integer with the value 0 or 1'')
               else
                 (case seq_exponent_of ex of
                    Inl e \<Rightarrow> Inl e
                  | Inr kind \<Rightarrow>
                      (case ds of
                         PList dl \<Rightarrow>
                           (case seq_digits dl 0 of
                              None \<Rightarrow> Inl (ValueError ''coefficient must be a tuple of digits'')
                            | Some n \<Rightarrow>
                                Inr (case kind of
                                       ExpInf \<Rightarrow> Infinity (s = 1)
                                     | ExpNaN sig \<Rightarrow> NaN (s = 1) sig n
                                     | ExpInt e \<Rightarrow> Finite (s = 1) n e))
                       | _ \<Rightarrow> Inl (ValueError ''coefficient must be a tuple of digits''))))
      | _ \<Rightarrow> Inl (ValueError ''argument must be a sequence of length 3''))"

fun Decimal_new :: "pyval \<Rightarrow> pyerr + decimal" where
  "Decimal_new (PStr s) =
     (case Decimal_parse (filter (\<lambda>c. c \<noteq> CHR ''_'') (py_strip s)) of
        None \<Rightarrow> Inl InvalidOperation
      | Some d \<Rightarrow> Inr d)"
| "Decimal_new (PInt i) = Inr (Decimal_from_int i)"
| "Decimal_new (PBool b) = Inr (Decimal_from_int (if b then 1 else 0))"
| "Decimal_new (PFloat f) = Inr (Decimal_from_float f)"
| "Decimal_new (PDec d) = Inr d"
| "Decimal_new (PList xs) = Decimal_from_sequence xs"
| "Decimal_new v = Inl (TypeError (''conversion from '' @ type_name v @ '' to Decimal is not supported''))"

text \<open>
  \<^verbatim>\<open>getattr(Category, name)\<close>.  A member name yields the member.  The class has further
  attributes that are not members (\<^verbatim>\<open>__doc__\<close>, \<^verbatim>\<open>__name__\<close>, \<^verbatim>\<open>__members__\<close>, ...), and
  \<^verbatim>\<open>getattr\<close> returns those too; their table \<open>attrs\<close> is a parameter of the model.  A name
  that is neither raises \<^verbatim>\<open>AttributeError(name)\<close>, and a name that is not a string raises
  \<^verbatim>\<open>TypeError\<close>.
\<close>

fun getattr_Category :: "(string \<Rightarrow> pyval option) \<Rightarrow> pyval \<Rightarrow> pyerr + pyval" where
  "getattr_Category attrs (PStr s) =
     (case Category_member s of
        Some c \<Rightarrow> Inr (PCat c)
      | None \<Rightarrow> (case attrs s of Some v \<Rightarrow> Inr v | None \<Rightarrow> Inl (AttributeError s)))"
| "getattr_Category attrs v = Inl (TypeError ''getattr(): attribute name must be string'')"

text \<open>The entries of that table which the source text fixes: the docstring of the class
  (line 28 of \<^verbatim>\<open>models.py\<close>), its name and its module.\<close>

definition Category_attrs :: "string \<Rightarrow> pyval option" where
  "Category_attrs =
     map_of [(''__doc__'', PStr ''Enumeration of valid Product Categories''),
             (''__name__'', PStr ''Category''),
             (''__qualname__'', PStr ''Category''),
             (''__module__'', PStr ''service.models'')]"

subsection \<open>The entity \<^verbatim>\<open>Product\<close>\<close>

text \<open>
  The attributes of a \<^verbatim>\<open>Product\<close> object.  The identifier is an integer or \<^verbatim>\<open>None\<close>;
  \<open>name\<close>, \<open>description\<close> and \<open>category\<close> hold whatever object was assigned;
  \<open>price\<close> and \<open>available\<close> are \<^verbatim>\<open>None\<close> until \<^verbatim>\<open>deserialize\<close> stores a decimal and
  a boolean there.
\<close>

record Product =
  product_id :: "int option"
  name :: pyval
  description :: pyval
  price :: "decimal option"
  available :: "bool option"
  category :: pyval

definition Product_new :: Product where
  "Product_new = \<lparr>product_id = None, name = PNone, description = PNone, price = None,
                  available = None, category = PNone\<rparr>"

text \<open>\<^verbatim>\<open>Product.serialize\<close>: \<^verbatim>\<open>self.category.name\<close> raises \<^verbatim>\<open>AttributeError\<close> when the
  category is not a member of the enumeration.\<close>

definition serialize :: "Product \<Rightarrow> pyerr + pyval" where
  "serialize self =
     (case category self of
        PCat c \<Rightarrow>
          Inr (PDict
            [(''id'', case product_id self of None \<Rightarrow> PNone | Some i \<Rightarrow> PInt i),
             (''name'', name self),
             (''description'', description self),
             (''price'', PStr (case price self of None \<Rightarrow> ''None'' | Some d \<Rightarrow> Decimal_str d)),
             (''available'', case available self of None \<Rightarrow> PNone | Some b \<Rightarrow> PBool b),
             (''category'', PStr (Category_name c))])
      | v \<Rightarrow> Inl (AttributeError (squote (type_name v) @ '' object has no attribute '' @ squote ''name'')))"

text \<open>
  \<^verbatim>\<open>Product.deserialize\<close>.  The body of the \<^verbatim>\<open>try\<close> assigns the attributes one after the
  other; an exception leaves the object as it is at that moment, so the left summand
  carries the exception together with the object.
\<close>

definition deserialize_try :: "(string \<Rightarrow> pyval option) \<Rightarrow> Product \<Rightarrow> pyval \<Rightarrow> pyerr \<times> Product + Product" where
  "deserialize_try attrs self0 data =
     (case getitem data ''name'' of
        Inl e \<Rightarrow> Inl (e, self0)
      | Inr v1 \<Rightarrow>
     let self1 = self0\<lparr>name := v1\<rparr> in
     (case getitem data ''description'' of
        Inl e \<Rightarrow> Inl (e, self1)
      | Inr v2 \<Rightarrow>
     let self2 = self1\<lparr>description := v2\<rparr> in
     (case getitem data ''price'' of
        Inl e \<Rightarrow> Inl (e, self2)
      | Inr v3 \<Rightarrow>
     (case Decimal_new v3 of
        Inl e \<Rightarrow> Inl (e, self2)
      | Inr d \<Rightarrow>
     let self3 = self2\<lparr>price := Some d\<rparr> in
     (case getitem data ''available'' of
        Inl e \<Rightarrow> Inl (e, self3)
      | Inr v4 \<Rightarrow>
     (case v4 of
        PBool b \<Rightarrow>
          let self4 = self3\<lparr>available := Some b\<rparr> in
          (case getitem data ''category'' of
             Inl e \<Rightarrow> Inl (e, self4)
           | Inr v5 \<Rightarrow>
          (case getattr_Category attrs v5 of
             Inl e \<Rightarrow> Inl (e, self4)
           | Inr c \<Rightarrow> Inr (self4\<lparr>category := c\<rparr>)))
      | _ \<Rightarrow>
          Inl (DataValidationError (''Invalid type for boolean [available]: '' @ type_str v4),
               self3)))))))"

definition deserialize :: "(string \<Rightarrow> pyval option) \<Rightarrow> Product \<Rightarrow> pyval \<Rightarrow> pyerr \<times> Product + Product" where
  "deserialize attrs self data =
     (case deserialize_try attrs self data of
        Inr self' \<Rightarrow> Inr self'
      | Inl (AttributeError a, self') \<Rightarrow>
          Inl (DataValidationError (''Invalid attribute: '' @ a), self')
      | Inl (KeyError k, self') \<Rightarrow>
          Inl (DataValidationError (''Invalid product: missing '' @ k), self')
      | Inl (TypeError m, self') \<Rightarrow>
          Inl (DataValidationError
                 (''Invalid product: body of request contained bad or no data '' @ m), self')
      | Inl (e, self') \<Rightarrow> Inl (e, self'))"

text \<open>The keys that \<^verbatim>\<open>deserialize\<close> reads, in the order in which it reads them.\<close>

definition required_keys :: "string list" where
  "required_keys = [''name'', ''description'', ''price'', ''available'', ''category'']"

subsection \<open>The store and its queries\<close>

text \<open>
  A query sees the table of products as the list of its rows, in the order in which the
  store returns them, and filters the rows.  The comparison of a \<^verbatim>\<open>Numeric\<close> column with a decimal is equality of
  the numbers, whatever their representation: \<open>12.5\<close> and \<open>12.50\<close> are equal, and so are
  the zeros of either sign.  An infinity equals the infinity of its sign and a NaN equals
  a NaN, as in PostgreSQL.
\<close>

fun dec_eq :: "decimal \<Rightarrow> decimal \<Rightarrow> bool" where
  "dec_eq (Finite s1 c1 e1) (Finite s2 c2 e2) =
     (let m = min e1 e2 in
      (if s1 then - 1 else 1) * int c1 * 10 ^ nat (e1 - m)
        = (if s2 then - 1 else 1) * int c2 * 10 ^ nat (e2 - m))"
| "dec_eq (Infinity s1) (Infinity s2) = (s1 = s2)"
| "dec_eq (NaN s1 g1 n1) (NaN s2 g2 n2) = True"
| "dec_eq d1 d2 = False"

fun numeric_of :: "pyval \<Rightarrow> decimal option" where
  "numeric_of (PDec d) = Some d"
| "numeric_of (PInt i) = Some (Decimal_from_int i)"
| "numeric_of (PBool b) = Some (Decimal_from_int (if b then 1 else 0))"
| "numeric_of (PFloat f) = Some (Decimal_from_float f)"
| "numeric_of v = None"

definition price_matches :: "pyval \<Rightarrow> Product \<Rightarrow> bool" where
  "price_matches v p =
     (case (price p, numeric_of v) of (Some x, Some y) \<Rightarrow> dec_eq x y | _ \<Rightarrow> False)"

definition all_products :: "Product list \<Rightarrow> Product list" where
  "all_products rows = rows"

definition find_by_name :: "Product list \<Rightarrow> string \<Rightarrow> Product list" where
  "find_by_name rows n = filter (\<lambda>p. name p = PStr n) rows"

definition find_by_price :: "Product list \<Rightarrow> pyval \<Rightarrow> pyerr + Product list" where
  "find_by_price rows price_arg =
     (case price_arg of
        PStr s \<Rightarrow>
          (case Decimal_new (PStr (py_strip_chars [CHR '' '', CHR 0x22] s)) of
             Inl e \<Rightarrow> Inl e
           | Inr d \<Rightarrow> Inr (filter (price_matches (PDec d)) rows))
      | v \<Rightarrow> Inr (filter (price_matches v) rows))"

definition find_by_availability :: "Product list \<Rightarrow> bool \<Rightarrow> Product list" where
  "find_by_availability rows b = filter (\<lambda>p. available p = Some b) rows"

definition find_by_category :: "Product list \<Rightarrow> pyval \<Rightarrow> Product list" where
  "find_by_category rows c = filter (\<lambda>p. category p = c) rows"

subsection \<open>The session and \<^verbatim>\<open>update\<close>\<close>

text \<open>
  \<^verbatim>\<open>Product.update\<close> is a test of the identifier followed by \<^verbatim>\<open>db.session.commit()\<close>.
  The commit receives no reference to the object: it writes the objects that the session
  tracks.  So the state has three parts.  The objects in memory live at references.  The
  session lists the references of the persistent objects it tracks (those loaded by a
  query or stored by \<^verbatim>\<open>create\<close>), each with the primary key of the row it stands for.
  The table maps primary keys to rows; it has no order.
\<close>

record orm =
  objects :: "nat \<Rightarrow> Product"
  session :: "(nat \<times> int) list"
  table :: "int \<Rightarrow> Product option"

text \<open>
  The flush of the commit goes through the tracked objects.  An object that equals its
  row is not written.  A changed object is written over its row if the table accepts its
  values: \<open>accepts\<close>, the checks of the table on the values of a row, is a parameter.
  A change of the identifier moves the row to the new key, which must be free.  A row that
  is gone, values that the table rejects, an identifier that is \<^verbatim>\<open>None\<close> or taken: each
  raises an exception of the library, a \<^verbatim>\<open>SQLAlchemyError\<close>.
\<close>

fun flush :: "(Product \<Rightarrow> bool) \<Rightarrow> (nat \<Rightarrow> Product) \<Rightarrow> (nat \<times> int) list
    \<Rightarrow> (int \<Rightarrow> Product option) \<Rightarrow> pyerr + (int \<Rightarrow> Product option)" where
  "flush accepts objs [] t = Inr t"
| "flush accepts objs ((r, k) # rest) t =
     (if t k = Some (objs r) then flush accepts objs rest t
      else if t k = None then Inl SQLAlchemyError
      else if \<not> accepts (objs r) then Inl SQLAlchemyError
      else (case product_id (objs r) of
              None \<Rightarrow> Inl SQLAlchemyError
            | Some k' \<Rightarrow>
                if k' = k then flush accepts objs rest (t(k \<mapsto> objs r))
                else if t k' \<noteq> None then Inl SQLAlchemyError
                else flush accepts objs rest ((t(k := None))(k' \<mapsto> objs r))))"

text \<open>\<^verbatim>\<open>db.session.commit()\<close>: the flush, in one transaction.  When it raises, the table is
  as before; when it succeeds, each tracked object stands for the row of its identifier.\<close>

definition session_commit :: "(Product \<Rightarrow> bool) \<Rightarrow> orm \<Rightarrow> (pyerr + unit) \<times> orm" where
  "session_commit accepts st =
     (case flush accepts (objects st) (session st) (table st) of
        Inl e \<Rightarrow> (Inl e, st)
      | Inr t \<Rightarrow>
          (Inr (),
           st\<lparr>session := map (\<lambda>(r, k). (r, case product_id (objects st r) of
                                              None \<Rightarrow> k | Some k' \<Rightarrow> k')) (session st),
              table := t\<rparr>))"

text \<open>\<^verbatim>\<open>not self.id\<close>: an identifier that is \<^verbatim>\<open>None\<close> or zero is falsy.\<close>

definition falsy_id :: "int option \<Rightarrow> bool" where
  "falsy_id i = (case i of None \<Rightarrow> True | Some n \<Rightarrow> n = 0)"

text \<open>\<^verbatim>\<open>Product.update\<close> on the object at the reference \<open>self\<close>.\<close>

definition update :: "(Product \<Rightarrow> bool) \<Rightarrow> nat \<Rightarrow> orm \<Rightarrow> (pyerr + unit) \<times> orm" where
  "update accepts self st =
     (if falsy_id (product_id (objects st self))
      then (Inl (DataValidationError ''Update called with empty ID field''), st)
      else session_commit accepts st)"

text \<open>
  The checks that the column declarations of the class state (lines 41 to 48 of
  \<^verbatim>\<open>models.py\<close>): no column is null, name and description are strings of at most 100
  and 250 characters, the price is a number, \<^verbatim>\<open>available\<close> a boolean and the category
  a member of the enumeration.
\<close>

definition columns_accept :: "Product \<Rightarrow> bool" where
  "columns_accept p =
     ((case name p of PStr s \<Rightarrow> length s \<le> 100 | _ \<Rightarrow> False)
      \<and> (case description p of PStr s \<Rightarrow> length s \<le> 250 | _ \<Rightarrow> False)
      \<and> price p \<noteq> None
      \<and> available p \<noteq> None
      \<and> (case category p of PCat c \<Rightarrow> True | _ \<Rightarrow> False))"

subsection \<open>The listing handler\<close>

text \<open>The query parameters of a request: \<^verbatim>\<open>request.args.get\<close> gives \<^verbatim>\<open>None\<close> for an
  absent parameter.  The test \<^verbatim>\<open>if v:\<close> succeeds when the parameter is a non-empty string;
  \<open>truthy\<close> gives that string, and \<open>None\<close> when the test fails.\<close>

record query_args =
  arg_name :: "string option"
  arg_category :: "string option"
  arg_available :: "string option"

definition truthy :: "string option \<Rightarrow> string option" where
  "truthy v = (case v of None \<Rightarrow> None | Some s \<Rightarrow> if s = [] then None else Some s)"

fun serialize_all :: "Product list \<Rightarrow> pyerr + pyval list" where
  "serialize_all [] = Inr []"
| "serialize_all (p # ps) =
     (case serialize p of
        Inl e \<Rightarrow> Inl e
      | Inr r \<Rightarrow> (case serialize_all ps of Inl e \<Rightarrow> Inl e | Inr rs \<Rightarrow> Inr (r # rs)))"

definition HTTP_200_OK :: nat where
  "HTTP_200_OK = 200"

definition respond :: "Product list \<Rightarrow> pyerr + pyval list \<times> nat" where
  "respond products =
     (case serialize_all products of Inl e \<Rightarrow> Inl e | Inr results \<Rightarrow> Inr (results, HTTP_200_OK))"

definition list_products :: "(string \<Rightarrow> pyval option) \<Rightarrow> Product list \<Rightarrow> query_args \<Rightarrow> pyerr + pyval list \<times> nat" where
  "list_products attrs rows args =
     (case truthy (arg_name args) of
        Some n \<Rightarrow> respond (find_by_name rows n)
      | None \<Rightarrow>
     (case truthy (arg_category args) of
        Some c \<Rightarrow>
          (case getattr_Category attrs (PStr (py_upper c)) of
             Inl e \<Rightarrow> Inl e
           | Inr category_value \<Rightarrow> respond (find_by_category rows category_value))
      | None \<Rightarrow>
     (case truthy (arg_available args) of
        Some a \<Rightarrow>
          respond (find_by_availability rows (py_lower a \<in> set [''true'', ''yes'', ''1'']))
      | None \<Rightarrow> respond (all_products rows))))"

subsection \<open>Sample data\<close>

text \<open>A product, a table of two rows and some request bodies, used to run the
  definitions on concrete inputs.\<close>

definition fedora :: Product where
  "fedora = \<lparr>product_id = Some 7, name = PStr ''Fedora'', description = PStr ''A red hat'',
              price = Some (Finite False 1250 (- 2)), available = Some True,
              category = PCat CLOTHS\<rparr>"

definition apple :: Product where
  "apple = \<lparr>product_id = Some 8, name = PStr ''Apple'', description = PStr ''A fruit'',
             price = Some (Finite False 5 (- 1)), available = Some False, category = PCat FOOD\<rparr>"

definition shop :: "Product list" where
  "shop = [fedora, apple]"

definition record_bad_price :: pyval where
  "record_bad_price = PDict [(''name'', PStr ''Hat''), (''description'', PStr ''A red hat''),
     (''price'', PStr ''abc''), (''available'', PBool True), (''category'', PStr ''CLOTHS'')]"

definition record_doc_category :: pyval where
  "record_doc_category = PDict [(''name'', PStr ''Hat''), (''description'', PStr ''A red hat''),
     (''price'', PStr ''12.50''), (''available'', PBool True), (''category'', PStr ''__doc__'')]"

definition record_no_category :: pyval where
  "record_no_category = PDict [(''name'', PStr ''Hat''), (''description'', PStr ''A red hat''),
     (''price'', PStr ''12.50''), (''available'', PStr ''yes'')]"

definition kvs_no_available :: "(string \<times> pyval) list" where
  "kvs_no_available = [(''name'', PStr ''Hat''), (''description'', PStr ''A red hat''),
     (''price'', PStr ''12.50''), (''category'', PStr ''CLOTHS'')]"

definition fedora_edited :: Product where
  "fedora_edited = fedora\<lparr>description := PStr ''testing''\<rparr>"

text \<open>Four states over the table of the two sample rows.  In the first the session
  tracks two objects, the rows as loaded, of which the first has a new description.  In
  the second the tracked object of row 7 has lost its name.  In the third an object with
  the identifier 7 and a new description exists, and the session tracks nothing.  The
  fourth is the first, except that the tracked object of row 8 has lost its name.\<close>

definition shop_table :: "int \<Rightarrow> Product option" where
  "shop_table = [7 \<mapsto> fedora, 8 \<mapsto> apple]"

definition orm_edited :: orm where
  "orm_edited = \<lparr>objects = (\<lambda>r. if r = 0 then fedora_edited else apple),
                  session = [(0, 7), (1, 8)], table = shop_table\<rparr>"

definition orm_null_name :: orm where
  "orm_null_name = \<lparr>objects = (\<lambda>r. fedora\<lparr>name := PNone\<rparr>),
                     session = [(0, 7)], table = shop_table\<rparr>"

definition orm_untracked :: orm where
  "orm_untracked = \<lparr>objects = (\<lambda>r. fedora_edited), session = [], table = shop_table\<rparr>"

definition orm_other_rejected :: orm where
  "orm_other_rejected = \<lparr>objects = (\<lambda>r. if r = 0 then fedora_edited else apple\<lparr>name := PNone\<rparr>),
                          session = [(0, 7), (1, 8)], table = shop_table\<rparr>"

definition apple_json :: pyval where
  "apple_json = PDict [(''id'', PInt 8), (''name'', PStr ''Apple''), (''description'', PStr ''A fruit''),
     (''price'', PStr ''0.5''), (''available'', PBool False), (''category'', PStr ''FOOD'')]"

definition fedora_json :: pyval where
  "fedora_json = PDict [(''id'', PInt 7), (''name'', PStr ''Fedora''), (''description'', PStr ''A red hat''),
     (''price'', PStr ''12.50''), (''available'', PBool True), (''category'', PStr ''CLOTHS'')]"

section \<open>Properties\<close>

subsection \<open>Digits and the strings of numbers\<close>

lemma is_digit_digit_char: "n < 10 \<Longrightarrow> is_digit (digit_char n)"
  by (simp add: is_digit_def digit_char_def)

lemma digit_val_digit_char: "n < 10 \<Longrightarrow> digit_val (digit_char n) = n"
  by (simp add: digit_val_def digit_char_def)

lemma str_nat_digits: "c \<in> set (str_nat n) \<Longrightarrow> is_digit c"
proof (induction n arbitrary: c rule: str_nat.induct)
  case (1 n)
  show ?case
  proof (cases "n < 10")
    case True
    with "1.prems" show ?thesis
      by (simp add: str_nat.simps [of n] is_digit_digit_char)
  next
    case False
    with "1.prems" "1.IH" show ?thesis
      by (auto simp add: str_nat.simps [of n] is_digit_digit_char)
  qed
qed

lemma str_nat_all_digits: "list_all is_digit (str_nat n)"
  by (simp add: list_all_iff str_nat_digits)

lemma str_nat_nonempty: "str_nat n \<noteq> []"
  by (subst str_nat.simps) simp

lemma digits_val_snoc: "digits_val (s @ [c]) = 10 * digits_val s + digit_val c"
  by (simp add: digits_val_def)

lemma digits_val_str_nat: "digits_val (str_nat n) = n"
proof (induction n rule: str_nat.induct)
  case (1 n)
  show ?case
  proof (cases "n < 10")
    case True
    then show ?thesis
      by (simp add: str_nat.simps [of n] digits_val_def digit_val_digit_char)
  next
    case False
    with "1.IH" show ?thesis
      by (simp add: str_nat.simps [of n] digits_val_snoc digit_val_digit_char)
  qed
qed

lemma foldl_digits_zeros:
  "foldl (\<lambda>a c. 10 * a + digit_val c) 0 (replicate k CHR ''0'' @ s) = foldl (\<lambda>a c. 10 * a + digit_val c) 0 s"
  by (induction k) (simp_all add: digit_val_def)

lemma digits_val_zeros: "digits_val (replicate k CHR ''0'' @ s) = digits_val s"
  by (simp add: digits_val_def foldl_digits_zeros del: foldl_append)

lemma digits_val_zero_cons: "digits_val (CHR ''0'' # s) = digits_val s"
  using digits_val_zeros [of 1 s] by simp

lemma takeWhile_digits_stop:
  "list_all is_digit ds \<Longrightarrow> (r = [] \<or> \<not> is_digit (hd r)) \<Longrightarrow> takeWhile is_digit (ds @ r) = ds"
  by (cases r) (auto simp add: list_all_iff takeWhile_tail)

lemma dropWhile_digits_stop:
  "list_all is_digit ds \<Longrightarrow> (r = [] \<or> \<not> is_digit (hd r)) \<Longrightarrow> dropWhile is_digit (ds @ r) = r"
  by (cases r) (auto simp add: list_all_iff dropWhile_append2)

lemma split_sign_sign_str:
  "r \<noteq> [] \<Longrightarrow> hd r \<noteq> CHR ''-'' \<Longrightarrow> hd r \<noteq> CHR ''+'' \<Longrightarrow> split_sign (sign_str s @ r) = (s, r)"
  by (cases r) (auto simp add: sign_str_def)

lemma parse_exponent_format: "parse_exponent (CHR ''E'' # format_plus_d x) = Some x"
  by (simp add: parse_exponent_def format_plus_d_def str_nat_nonempty str_nat_all_digits digits_val_str_nat
      split: list.splits)

subsection \<open>Printing a decimal and parsing it back\<close>

lemma not_digit_dot: "\<not> is_digit CHR ''.''"
  by (simp add: is_digit_def)

lemma not_digit_E: "\<not> is_digit CHR ''E''"
  by (simp add: is_digit_def)

lemma parse_number_layout:
  assumes ip: "list_all is_digit ip" "ip \<noteq> []"
    and fp: "list_all is_digit fp"
    and frac: "(frac = [] \<and> fp = []) \<or> frac = CHR ''.'' # fp"
    and ex: "(ex = [] \<and> x = 0) \<or> ex = CHR ''E'' # format_plus_d x"
  shows "parse_number (ip @ frac @ ex) = Some (ip, fp, x)"
proof -
  have pe: "parse_exponent ex = Some x"
    using ex by (auto simp add: parse_exponent_format) (simp add: parse_exponent_def)
  have stop: "frac @ ex = [] \<or> \<not> is_digit (hd (frac @ ex))"
    using frac ex by (auto simp add: not_digit_dot not_digit_E)
  have t1: "takeWhile is_digit (ip @ frac @ ex) = ip"
    using ip(1) stop by (rule takeWhile_digits_stop)
  have d1: "dropWhile is_digit (ip @ frac @ ex) = frac @ ex"
    using ip(1) stop by (rule dropWhile_digits_stop)
  have stop2: "ex = [] \<or> \<not> is_digit (hd ex)"
    using ex by (auto simp add: not_digit_E)
  have t2: "takeWhile is_digit (fp @ ex) = fp"
    using fp stop2 by (rule takeWhile_digits_stop)
  have d2: "dropWhile is_digit (fp @ ex) = ex"
    using fp stop2 by (rule dropWhile_digits_stop)
  from frac show ?thesis
  proof
    assume f: "frac = [] \<and> fp = []"
    from ex show ?thesis
    proof
      assume "ex = [] \<and> x = 0"
      with f ip pe show ?thesis
        unfolding parse_number_def Let_def t1 d1 by simp
    next
      assume "ex = CHR ''E'' # format_plus_d x"
      with f ip pe show ?thesis
        unfolding parse_number_def Let_def t1 d1 by simp
    qed
  next
    assume f: "frac = CHR ''.'' # fp"
    with ip pe t2 d2 show ?thesis
      unfolding parse_number_def Let_def t1 d1 by simp
  qed
qed

lemma digit_not_sign: "is_digit c \<Longrightarrow> c \<noteq> CHR ''-'' \<and> c \<noteq> CHR ''+''"
  by (auto simp add: is_digit_def)

lemma Decimal_parse_layout:
  assumes ip: "list_all is_digit ip" "ip \<noteq> []"
    and fp: "list_all is_digit fp"
    and frac: "(frac = [] \<and> fp = []) \<or> frac = CHR ''.'' # fp"
    and ex: "(ex = [] \<and> x = 0) \<or> ex = CHR ''E'' # format_plus_d x"
  shows "Decimal_parse (sign_str s @ ip @ frac @ ex)
           = Some (Finite s (digits_val (ip @ fp)) (x - int (length fp)))"
proof -
  have hd: "is_digit (hd (ip @ frac @ ex))"
    using ip by (cases ip) simp_all
  have "split_sign (sign_str s @ (ip @ frac @ ex)) = (s, ip @ frac @ ex)"
    using ip(2) digit_not_sign [OF hd] by (intro split_sign_sign_str) simp_all
  moreover have "parse_number (ip @ frac @ ex) = Some (ip, fp, x)"
    using assms by (rule parse_number_layout)
  ultimately show ?thesis
    by (simp add: Decimal_parse_def)
qed

lemma Decimal_parse_str_Finite: "Decimal_parse (Decimal_str (Finite s n e)) = Some (Finite s n e)"
proof -
  define ds where "ds = str_nat n"
  define ld where "ld = e + int (length ds)"
  have dig: "list_all is_digit ds" and ne: "ds \<noteq> []" and val: "digits_val ds = n"
    by (simp_all add: ds_def str_nat_all_digits str_nat_nonempty digits_val_str_nat)
  have len: "0 < length ds" using ne by simp
  define dp where "dp = (if e \<le> 0 \<and> ld > - 6 then ld else 1)"
  have str0: "Decimal_str (Finite s n e) =
      sign_str s
      @ (if dp \<le> 0 then ''0''
         else if dp \<ge> int (length ds) then ds @ replicate (nat (dp - int (length ds))) CHR ''0''
         else take (nat dp) ds)
      @ (if dp \<le> 0 then CHR ''.'' # replicate (nat (- dp)) CHR ''0'' @ ds
         else if dp \<ge> int (length ds) then []
         else CHR ''.'' # drop (nat dp) ds)
      @ (if ld = dp then [] else CHR ''E'' # format_plus_d (ld - dp))"
    by (simp add: Let_def ds_def ld_def dp_def)
  show ?thesis
  proof (cases "e \<le> 0 \<and> ld > - 6")
    case plain: True
    consider (small) "ld \<le> 0" | (whole) "ld \<ge> int (length ds)" "0 < ld" | (mid) "0 < ld" "ld < int (length ds)"
      by linarith
    then show ?thesis
    proof cases
      case small
      have str: "Decimal_str (Finite s n e) =
          sign_str s @ ''0'' @ (CHR ''.'' # replicate (nat (- ld)) CHR ''0'' @ ds) @ []"
        using plain small by (simp add: str0 dp_def del: Decimal_str.simps)
      have "Decimal_parse (sign_str s @ ''0'' @ (CHR ''.'' # replicate (nat (- ld)) CHR ''0'' @ ds) @ [])
          = Some (Finite s (digits_val (''0'' @ (replicate (nat (- ld)) CHR ''0'' @ ds)))
                   (0 - int (length (replicate (nat (- ld)) CHR ''0'' @ ds))))"
        by (rule Decimal_parse_layout) (use dig in \<open>auto simp add: list_all_iff is_digit_def\<close>)
      moreover have "digits_val (''0'' @ (replicate (nat (- ld)) CHR ''0'' @ ds)) = n"
        by (simp add: digits_val_zero_cons digits_val_zeros val)
      moreover have "0 - int (length (replicate (nat (- ld)) CHR ''0'' @ ds)) = e"
        using small by (simp add: ld_def)
      ultimately show ?thesis unfolding str by simp
    next
      case whole
      have e0: "e = 0" using plain whole by (simp add: ld_def)
      have ldl: "ld = int (length ds)" using e0 by (simp add: ld_def)
      have str: "Decimal_str (Finite s n e) = sign_str s @ ds @ [] @ []"
        using plain whole ne ldl by (simp add: str0 dp_def del: Decimal_str.simps)
      have "Decimal_parse (sign_str s @ ds @ [] @ []) = Some (Finite s (digits_val (ds @ [])) (0 - int (length ([]::string))))"
        by (rule Decimal_parse_layout) (simp_all add: dig ne)
      then show ?thesis unfolding str using e0 val by simp
    next
      case mid
      have str: "Decimal_str (Finite s n e) =
          sign_str s @ take (nat ld) ds @ (CHR ''.'' # drop (nat ld) ds) @ []"
        using plain mid by (simp add: str0 dp_def del: Decimal_str.simps)
      have t: "list_all is_digit (take (nat ld) ds)" and d: "list_all is_digit (drop (nat ld) ds)"
        using dig by (auto simp add: list_all_iff dest: in_set_takeD in_set_dropD)
      have tne: "take (nat ld) ds \<noteq> []" using mid ne by simp
      have "Decimal_parse (sign_str s @ take (nat ld) ds @ (CHR ''.'' # drop (nat ld) ds) @ [])
          = Some (Finite s (digits_val (take (nat ld) ds @ drop (nat ld) ds))
                   (0 - int (length (drop (nat ld) ds))))"
        using t tne d by (rule Decimal_parse_layout) simp_all
      moreover have "0 - int (length (drop (nat ld) ds)) = e"
        using mid by (simp add: ld_def)
      ultimately show ?thesis unfolding str using val by simp
    qed
  next
    case sci: False
    define ex where "ex = (if ld = 1 then [] else CHR ''E'' # format_plus_d (ld - 1))"
    have exc: "(ex = [] \<and> ld - 1 = 0) \<or> ex = CHR ''E'' # format_plus_d (ld - 1)"
      by (simp add: ex_def)
    show ?thesis
    proof (cases "length ds = 1")
      case True
      have str: "Decimal_str (Finite s n e) = sign_str s @ ds @ [] @ ex"
        using sci True by (simp add: str0 dp_def ex_def del: Decimal_str.simps)
      have "Decimal_parse (sign_str s @ ds @ [] @ ex)
          = Some (Finite s (digits_val (ds @ [])) ((ld - 1) - int (length ([]::string))))"
        using dig ne _ _ exc by (rule Decimal_parse_layout) simp_all
      moreover have "(ld - 1) - int (length ([]::string)) = e"
        using True by (simp add: ld_def)
      ultimately show ?thesis unfolding str using val by simp
    next
      case False
      then have long: "1 < length ds" using len by linarith
      have str: "Decimal_str (Finite s n e) = sign_str s @ take 1 ds @ (CHR ''.'' # drop 1 ds) @ ex"
        using sci long by (simp add: str0 dp_def ex_def del: Decimal_str.simps)
      have t: "list_all is_digit (take 1 ds)" and d: "list_all is_digit (drop 1 ds)"
        using dig by (auto simp add: list_all_iff dest: in_set_takeD in_set_dropD)
      have tne: "take 1 ds \<noteq> []" using ne by simp
      have "Decimal_parse (sign_str s @ take 1 ds @ (CHR ''.'' # drop 1 ds) @ ex)
          = Some (Finite s (digits_val (take 1 ds @ drop 1 ds)) ((ld - 1) - int (length (drop 1 ds))))"
        using t tne d _ exc by (rule Decimal_parse_layout) simp_all
      moreover have "(ld - 1) - int (length (drop 1 ds)) = e"
        using long by (simp add: ld_def)
      ultimately show ?thesis unfolding str using val by simp
    qed
  qed
qed

lemma lower_digit: "is_digit c \<Longrightarrow> ascii_lower c = c"
  by (simp add: is_digit_def ascii_lower_def)

lemma py_lower_digits: "list_all is_digit ds \<Longrightarrow> py_lower ds = ds"
  by (induction ds) (simp_all add: py_lower_def lower_digit)

lemma py_lower_append: "py_lower (a @ b) = py_lower a @ py_lower b"
  by (simp add: py_lower_def)

lemma py_lower_Infinity: "py_lower ''Infinity'' = ''infinity''"
  by code_simp

lemma py_lower_NaN: "py_lower ''NaN'' = ''nan''"
  by code_simp

lemma py_lower_sNaN: "py_lower ''sNaN'' = ''snan''"
  by code_simp

lemma Decimal_parse_str_Infinity: "Decimal_parse (Decimal_str (Infinity s)) = Some (Infinity s)"
proof -
  have "split_sign (sign_str s @ ''Infinity'') = (s, ''Infinity'')"
    by (rule split_sign_sign_str) simp_all
  moreover have "parse_number ''Infinity'' = None"
    by (simp add: parse_number_def is_digit_def)
  moreover have "parse_special s ''Infinity'' = Some (Infinity s)"
    by (simp add: parse_special_def py_lower_Infinity)
  ultimately show ?thesis
    by (simp add: Decimal_parse_def)
qed

lemma payload_digits:
  "list_all is_digit (if n = 0 then [] else str_nat n) \<and> digits_val (if n = 0 then [] else str_nat n) = n"
  by (simp add: str_nat_all_digits digits_val_str_nat) (simp add: digits_val_def)

lemma Decimal_parse_str_NaN: "Decimal_parse (Decimal_str (NaN s sig n)) = Some (NaN s sig n)"
proof -
  define pl where "pl = (if n = 0 then [] else str_nat n)"
  have dig: "list_all is_digit pl" and val: "digits_val pl = n"
    using payload_digits [of n] by (simp_all add: pl_def)
  have low: "py_lower pl = pl"
    using dig by (rule py_lower_digits)
  show ?thesis
  proof (cases sig)
    case True
    have "split_sign (sign_str s @ (''sNaN'' @ pl)) = (s, ''sNaN'' @ pl)"
      by (rule split_sign_sign_str) simp_all
    moreover have "parse_number (''sNaN'' @ pl) = None"
      by (simp add: parse_number_def is_digit_def)
    moreover have "py_lower (''sNaN'' @ pl) = ''snan'' @ pl"
      using low by (simp only: py_lower_append py_lower_sNaN)
    then have "parse_special s (''sNaN'' @ pl) = Some (NaN s True n)"
      using dig val by (simp add: parse_special_def)
    ultimately show ?thesis
      using True by (simp add: Decimal_parse_def pl_def)
  next
    case False
    have "split_sign (sign_str s @ (''NaN'' @ pl)) = (s, ''NaN'' @ pl)"
      by (rule split_sign_sign_str) simp_all
    moreover have "parse_number (''NaN'' @ pl) = None"
      by (simp add: parse_number_def is_digit_def)
    moreover have "py_lower (''NaN'' @ pl) = ''nan'' @ pl"
      using low by (simp only: py_lower_append py_lower_NaN)
    then have "parse_special s (''NaN'' @ pl) = Some (NaN s False n)"
      using dig val by (simp add: parse_special_def)
    ultimately show ?thesis
      using False by (simp add: Decimal_parse_def pl_def)
  qed
qed

lemma Decimal_parse_str: "Decimal_parse (Decimal_str d) = Some d"
  by (cases d) (simp_all only: Decimal_parse_str_Finite Decimal_parse_str_Infinity Decimal_parse_str_NaN)


lemma str_nat_dec_char: "c \<in> set (str_nat n) \<Longrightarrow> dec_char c"
  by (simp add: dec_char_def str_nat_digits)

lemma format_plus_d_dec_char: "c \<in> set (format_plus_d x) \<Longrightarrow> dec_char c"
  by (auto simp add: format_plus_d_def str_nat_dec_char split: if_splits) (simp_all add: dec_char_def)

lemma Decimal_str_dec_char: "c \<in> set (Decimal_str d) \<Longrightarrow> dec_char c"
proof (cases d)
  case (Finite s n e)
  assume "c \<in> set (Decimal_str d)"
  with Finite show ?thesis
    by (auto simp add: Let_def sign_str_def str_nat_dec_char format_plus_d_dec_char
          split: if_splits dest: in_set_takeD in_set_dropD)
       (simp_all add: dec_char_def is_digit_def)
next
  case (Infinity s)
  assume "c \<in> set (Decimal_str d)"
  with Infinity show ?thesis
    by (auto simp add: sign_str_def dec_char_def split: if_splits)
next
  case (NaN s sig n)
  assume "c \<in> set (Decimal_str d)"
  with NaN show ?thesis
    by (auto simp add: sign_str_def str_nat_dec_char split: if_splits) (simp_all add: dec_char_def)
qed

lemma Decimal_str_nonempty: "Decimal_str d \<noteq> []"
  by (cases d) (auto simp add: Let_def str_nat_nonempty split: if_splits)

lemma dec_char_plain:
  "dec_char c \<Longrightarrow> \<not> is_space c \<and> c \<noteq> CHR ''_'' \<and> c \<noteq> CHR '' '' \<and> c \<noteq> CHR 0x22"
  by (auto simp add: dec_char_def is_digit_def is_space_def)

lemma strip_by_padded:
  assumes "\<forall>c \<in> set p1. P c" "\<forall>c \<in> set p2. P c" "s \<noteq> []" "\<not> P (hd s)" "\<not> P (last s)"
  shows "strip_by P (p1 @ s @ p2) = s"
proof -
  have "dropWhile P (p1 @ s @ p2) = s @ p2"
    using assms(1,3,4) by (cases s) simp_all
  moreover have "dropWhile P (rev p2 @ rev s) = rev s"
  proof -
    have "dropWhile P (rev p2 @ rev s) = dropWhile P (rev s)"
      using assms(2) by (intro dropWhile_append2) simp
    also have "\<dots> = rev s"
      using assms(3,5) by (cases s rule: rev_cases) simp_all
    finally show ?thesis .
  qed
  ultimately show ?thesis
    by (simp add: strip_by_def)
qed

lemma Decimal_new_str_padded:
  assumes "\<forall>c \<in> set p1. is_space c" "\<forall>c \<in> set p2. is_space c"
  shows "Decimal_new (PStr (p1 @ Decimal_str d @ p2)) = Inr d"
proof -
  have ne: "Decimal_str d \<noteq> []" by (rule Decimal_str_nonempty)
  then have "hd (Decimal_str d) \<in> set (Decimal_str d)" "last (Decimal_str d) \<in> set (Decimal_str d)"
    by simp_all
  then have ends: "\<not> is_space (hd (Decimal_str d))" "\<not> is_space (last (Decimal_str d))"
    using Decimal_str_dec_char dec_char_plain by blast+
  have "py_strip (p1 @ Decimal_str d @ p2) = Decimal_str d"
    unfolding py_strip_def using assms ne ends by (rule strip_by_padded)
  moreover have "filter (\<lambda>c. c \<noteq> CHR ''_'') (Decimal_str d) = Decimal_str d"
    using Decimal_str_dec_char dec_char_plain by (intro filter_True) blast
  ultimately show ?thesis
    by (simp add: Decimal_parse_str)
qed

lemma Decimal_new_str: "Decimal_new (PStr (Decimal_str d)) = Inr d"
  using Decimal_new_str_padded [of "[]" "[]" d] by simp

subsection \<open>The strings that convert to a decimal\<close>

lemma digit_plain: "is_digit c \<Longrightarrow> plain_char c"
  by (auto simp add: is_digit_def plain_char_def is_space_def)

lemma lower_plain: "plain_char (ascii_lower c) \<Longrightarrow> plain_char c"
  by (auto simp add: plain_char_def ascii_lower_def is_space_def Let_def split: if_splits)

lemma split_sign_chars:
  assumes "split_sign x = (sg, body)" and "c \<in> set x"
  shows "c \<in> set body \<or> c = CHR ''-'' \<or> c = CHR ''+''"
  using assms by (cases x) (auto split: if_splits)

lemma sign_plain: "c = CHR ''-'' \<or> c = CHR ''+'' \<Longrightarrow> plain_char c"
  by (auto simp add: plain_char_def is_space_def)

lemma parse_exponent_chars:
  assumes "parse_exponent r = Some ex" and "c \<in> set r"
  shows "plain_char c"
proof (cases r)
  case Nil
  with assms(2) show ?thesis by simp
next
  case (Cons e t)
  obtain neg ds where sp: "split_sign t = (neg, ds)"
    by (cases "split_sign t")
  from assms(1) Cons sp have e: "e = CHR ''E'' \<or> e = CHR ''e''" and ds: "list_all is_digit ds"
    by (auto simp add: parse_exponent_def split: if_splits)
  from assms(2) Cons have "c = e \<or> c \<in> set t" by simp
  then show ?thesis
  proof
    assume "c = e"
    with e show ?thesis by (auto simp add: plain_char_def is_space_def)
  next
    assume "c \<in> set t"
    from split_sign_chars [OF sp this] show ?thesis
      using ds by (auto simp add: list_all_iff digit_plain sign_plain)
  qed
qed

lemma parse_number_chars:
  assumes "parse_number body = Some r" and "c \<in> set body"
  shows "plain_char c"
proof -
  define r1 where "r1 = dropWhile is_digit body"
  have "body = takeWhile is_digit body @ r1"
    by (simp add: r1_def)
  with assms(2) have "c \<in> set (takeWhile is_digit body) \<or> c \<in> set r1"
    by (metis Un_iff set_append)
  then show ?thesis
  proof
    assume "c \<in> set (takeWhile is_digit body)"
    then have "is_digit c" by (rule set_takeWhileD [THEN conjunct2])
    then show ?thesis by (rule digit_plain)
  next
    assume c1: "c \<in> set r1"
    then obtain c0 t where r1: "r1 = c0 # t" by (cases r1) auto
    show ?thesis
    proof (cases "c0 = CHR ''.''")
      case True
      with assms(1) r1 obtain ex where pe: "parse_exponent (dropWhile is_digit t) = Some ex"
        by (auto simp add: parse_number_def Let_def r1_def [symmetric] split: if_splits option.splits)
      have "t = takeWhile is_digit t @ dropWhile is_digit t" by simp
      with c1 r1 have "c = c0 \<or> c \<in> set (takeWhile is_digit t) \<or> c \<in> set (dropWhile is_digit t)"
        by (metis Un_iff set_ConsD set_append)
      then show ?thesis
      proof (elim disjE)
        assume "c = c0"
        with True show ?thesis by (simp add: plain_char_def is_space_def)
      next
        assume "c \<in> set (takeWhile is_digit t)"
        then have "is_digit c" by (rule set_takeWhileD [THEN conjunct2])
        then show ?thesis by (rule digit_plain)
      next
        assume "c \<in> set (dropWhile is_digit t)"
        with pe show ?thesis by (rule parse_exponent_chars)
      qed
    next
      case False
      with assms(1) r1 obtain ex where "parse_exponent r1 = Some ex"
        by (auto simp add: parse_number_def Let_def r1_def [symmetric] split: if_splits option.splits)
      then show ?thesis using c1 by (rule parse_exponent_chars)
    qed
  qed
qed

lemma letters_plain: "c \<in> set ''infinitysnan'' \<Longrightarrow> plain_char c"
  by (auto simp add: plain_char_def is_space_def)

lemma parse_special_chars:
  assumes "parse_special sg body = Some d" and "c \<in> set body"
  shows "plain_char c"
proof -
  define l where "l = py_lower body"
  from assms(2) have cl: "ascii_lower c \<in> set l"
    by (simp add: l_def py_lower_def)
  have "plain_char (ascii_lower c)"
  proof -
    from assms(1) consider (inf) "l = ''inf'' \<or> l = ''infinity''"
      | (nan) "take 3 l = ''nan''" "list_all is_digit (drop 3 l)"
      | (snan) "take 4 l = ''snan''" "list_all is_digit (drop 4 l)"
      by (auto simp add: parse_special_def Let_def l_def [symmetric] split: if_splits)
    then show ?thesis
    proof cases
      case inf
      with cl have "ascii_lower c \<in> set ''infinitysnan''" by auto
      then show ?thesis by (rule letters_plain)
    next
      case nan
      have "l = take 3 l @ drop 3 l" by simp
      with cl have "ascii_lower c \<in> set (take 3 l) \<or> ascii_lower c \<in> set (drop 3 l)"
        by (metis Un_iff set_append)
      then show ?thesis
      proof
        assume "ascii_lower c \<in> set (take 3 l)"
        with nan(1) have "ascii_lower c \<in> set ''infinitysnan''" by auto
        then show ?thesis by (rule letters_plain)
      next
        assume "ascii_lower c \<in> set (drop 3 l)"
        with nan(2) show ?thesis by (simp add: list_all_iff digit_plain)
      qed
    next
      case snan
      have "l = take 4 l @ drop 4 l" by simp
      with cl have "ascii_lower c \<in> set (take 4 l) \<or> ascii_lower c \<in> set (drop 4 l)"
        by (metis Un_iff set_append)
      then show ?thesis
      proof
        assume "ascii_lower c \<in> set (take 4 l)"
        with snan(1) have "ascii_lower c \<in> set ''infinitysnan''" by auto
        then show ?thesis by (rule letters_plain)
      next
        assume "ascii_lower c \<in> set (drop 4 l)"
        with snan(2) show ?thesis by (simp add: list_all_iff digit_plain)
      qed
    qed
  qed
  then show ?thesis by (rule lower_plain)
qed

lemma Decimal_parse_chars:
  assumes "Decimal_parse x = Some d" and "c \<in> set x"
  shows "plain_char c"
proof -
  obtain sg body where sp: "split_sign x = (sg, body)"
    by (cases "split_sign x")
  from split_sign_chars [OF sp assms(2)] show ?thesis
  proof
    assume cb: "c \<in> set body"
    show ?thesis
    proof (cases "parse_number body")
      case None
      with assms(1) sp have "parse_special sg body = Some d"
        by (simp add: Decimal_parse_def)
      then show ?thesis using cb by (rule parse_special_chars)
    next
      case (Some r)
      then show ?thesis using cb by (rule parse_number_chars)
    qed
  next
    assume "c = CHR ''-'' \<or> c = CHR ''+''"
    then show ?thesis by (rule sign_plain)
  qed
qed

lemma Decimal_parse_Nil: "Decimal_parse [] = None"
  by (simp add: Decimal_parse_def parse_number_def parse_special_def py_lower_def)


lemma dropWhile_before:
  assumes "u \<noteq> []" and "\<not> P (hd u)"
  shows "dropWhile P (a @ u) = dropWhile P a @ u"
proof (cases "\<forall>x \<in> set a. P x")
  case True
  then have "dropWhile P (a @ u) = dropWhile P u"
    by (intro dropWhile_append2) simp
  moreover have "dropWhile P u = u"
    using assms by (cases u) simp_all
  moreover have "dropWhile P a = []"
    using True by simp
  ultimately show ?thesis by simp
next
  case False
  then obtain x where "x \<in> set a" "\<not> P x" by blast
  then show ?thesis by (simp add: dropWhile_append1)
qed

lemma strip_by_decompose:
  "\<exists>a b. s = a @ strip_by W s @ b \<and> (\<forall>c \<in> set a. W c) \<and> (\<forall>c \<in> set b. W c)"
proof -
  define m where "m = dropWhile W s"
  have s: "s = takeWhile W s @ m"
    by (simp add: m_def)
  have "rev (takeWhile W (rev m) @ dropWhile W (rev m)) = rev (rev m)"
    by (simp only: takeWhile_dropWhile_id)
  then have "rev (dropWhile W (rev m)) @ rev (takeWhile W (rev m)) = m"
    by (simp only: rev_append rev_rev_ident)
  then have m: "m = strip_by W s @ rev (takeWhile W (rev m))"
    by (simp only: strip_by_def m_def)
  have "\<forall>c \<in> set (takeWhile W s). W c"
    by (auto dest: set_takeWhileD)
  moreover have "\<forall>c \<in> set (rev (takeWhile W (rev m))). W c"
    by (auto dest: set_takeWhileD)
  moreover have "s = takeWhile W s @ strip_by W s @ rev (takeWhile W (rev m))"
    using s m by simp
  ultimately show ?thesis by blast
qed

lemma strip_by_inner:
  assumes core: "u \<noteq> []" "\<not> P (hd u)" "\<not> P (last u)"
    and pads: "\<forall>c \<in> set p1. P c" "\<forall>c \<in> set p2. P c"
  shows "strip_by P (p1 @ (a @ u @ b) @ p2) = dropWhile P a @ u @ rev (dropWhile P (rev b))"
proof -
  have "dropWhile P (p1 @ (a @ u @ b) @ p2) = dropWhile P (a @ (u @ b @ p2))"
    using pads(1) by (simp add: dropWhile_append2)
  also have "\<dots> = dropWhile P a @ (u @ b @ p2)"
    using core(1,2) by (intro dropWhile_before) simp_all
  finally have left: "dropWhile P (p1 @ a @ u @ b @ p2) = dropWhile P a @ u @ b @ p2"
    by simp
  have "dropWhile P (rev (dropWhile P a @ u @ b @ p2))
          = dropWhile P (rev p2 @ (rev b @ (rev u @ rev (dropWhile P a))))"
    by simp
  also have "\<dots> = dropWhile P (rev b @ (rev u @ rev (dropWhile P a)))"
    using pads(2) by (intro dropWhile_append2) simp
  also have "\<dots> = dropWhile P (rev b) @ (rev u @ rev (dropWhile P a))"
    using core(1,3) by (intro dropWhile_before) (simp_all add: hd_rev)
  finally show ?thesis
    by (simp add: strip_by_def left)
qed

lemma Decimal_new_str_vals:
  assumes "Decimal_new (PStr s) = Inr d"
  shows "strip_by is_space s \<noteq> [] \<and> (\<forall>c \<in> set (strip_by is_space s). plain_char c)"
proof -
  define core where "core = strip_by is_space s"
  from assms have p: "Decimal_parse (filter (\<lambda>c. c \<noteq> CHR ''_'') core) = Some d"
    by (simp add: py_strip_def core_def split: option.splits)
  have "core \<noteq> []"
    using p by (auto simp add: Decimal_parse_Nil)
  moreover have "plain_char c" if "c \<in> set core" for c
  proof (cases "c = CHR ''_''")
    case True
    then show ?thesis by (simp add: plain_char_def is_space_def)
  next
    case False
    with that have "c \<in> set (filter (\<lambda>c. c \<noteq> CHR ''_'') core)" by simp
    with p show ?thesis by (rule Decimal_parse_chars)
  qed
  ultimately show ?thesis by (simp add: core_def)
qed

lemma Decimal_new_padded_quotes:
  assumes ok: "Decimal_new (PStr s) = Inr d"
    and pads: "set pad1 \<subseteq> {CHR '' '', CHR 0x22}" "set pad2 \<subseteq> {CHR '' '', CHR 0x22}"
  shows "Decimal_new (PStr (py_strip_chars [CHR '' '', CHR 0x22] (pad1 @ s @ pad2))) = Inr d"
proof -
  define P where "P = (\<lambda>c. c \<in> set [CHR '' '', CHR 0x22])"
  define core where "core = strip_by is_space s"
  from Decimal_new_str_vals [OF ok] have ne: "core \<noteq> []" and pl: "\<forall>c \<in> set core. plain_char c"
    by (simp_all add: core_def)
  obtain a b where s: "s = a @ core @ b" and a: "\<forall>c \<in> set a. is_space c" and b: "\<forall>c \<in> set b. is_space c"
    using strip_by_decompose [of s is_space] by (auto simp add: core_def)
  have plainP: "plain_char c \<Longrightarrow> \<not> P c" for c
    by (auto simp add: plain_char_def P_def is_space_def)
  have ends: "plain_char (hd core)" "plain_char (last core)"
    using ne pl by simp_all
  have p1: "\<forall>c \<in> set pad1. P c" and p2: "\<forall>c \<in> set pad2. P c"
    using pads by (auto simp add: P_def)
  have A: "strip_by P (pad1 @ s @ pad2) = dropWhile P a @ core @ rev (dropWhile P (rev b))"
    by (subst s) (rule strip_by_inner [OF ne plainP [OF ends(1)] plainP [OF ends(2)] p1 p2])
  have B: "strip_by is_space (dropWhile P a @ core @ rev (dropWhile P (rev b))) = core"
  proof (rule strip_by_padded)
    show "\<forall>c \<in> set (dropWhile P a). is_space c"
      using a by (auto dest: set_dropWhileD)
    show "\<forall>c \<in> set (rev (dropWhile P (rev b))). is_space c"
      using b by (auto dest: set_dropWhileD)
    show "core \<noteq> []" by (rule ne)
    show "\<not> is_space (hd core)" "\<not> is_space (last core)"
      using ends by (simp_all add: plain_char_def)
  qed
  have C: "py_strip (py_strip_chars [CHR '' '', CHR 0x22] (pad1 @ s @ pad2)) = core"
    by (simp only: py_strip_def py_strip_chars_def P_def [symmetric] A B)
  have D: "py_strip s = core"
    by (simp only: py_strip_def core_def)
  have "Decimal_new (PStr (py_strip_chars [CHR '' '', CHR 0x22] (pad1 @ s @ pad2))) = Decimal_new (PStr s)"
    by (simp only: Decimal_new.simps C D)
  with ok show ?thesis
    by (simp only:)
qed


subsection \<open>Serialization and deserialization\<close>

lemma Category_member_name: "Category_member (Category_name c) = Some c"
  by (cases c) (simp_all add: Category_member_def)

lemma getattr_Category_member: "getattr_Category attrs (PStr (Category_name c)) = Inr (PCat c)"
  by (simp add: Category_member_name)

text \<open>
  Claim C1.  For a product whose price is a decimal, whose \<open>available\<close> is a boolean and
  whose category is a member of the enumeration, \<^verbatim>\<open>serialize\<close> returns a record, and
  \<^verbatim>\<open>deserialize\<close> of that record into any object succeeds and sets name, description,
  price, available and category to those of the product; the identifier of the receiving
  object is left as it was.  The price comes back as the same decimal: same sign, same
  coefficient, same exponent.
\<close>

theorem serialize_deserialize_roundtrip:
  assumes "price p = Some d" and "available p = Some b" and "category p = PCat c"
  shows "\<exists>data. serialize p = Inr data \<and>
           deserialize attrs q data =
             Inr (q\<lparr>name := name p, description := description p, price := price p,
                    available := available p, category := category p\<rparr>)"
  using assms
  by (simp add: serialize_def deserialize_def deserialize_try_def Decimal_new_str
        getattr_Category_member del: Decimal_new.simps getattr_Category.simps)

theorem serialize_deserialize_roundtrip_witness:
  "price fedora = Some (Finite False 1250 (- 2)) \<and> available fedora = Some True \<and>
   category fedora = PCat CLOTHS \<and>
   (\<exists>data. serialize fedora = Inr data \<and>
      deserialize Category_attrs Product_new data = Inr (fedora\<lparr>product_id := None\<rparr>))"
proof -
  have h: "price fedora = Some (Finite False 1250 (- 2))" "available fedora = Some True"
      "category fedora = PCat CLOTHS"
    by (simp_all add: fedora_def)
  show ?thesis
    using h serialize_deserialize_roundtrip [OF h, of Category_attrs Product_new]
    by (simp add: fedora_def Product_new_def)
qed

text \<open>
  Claim C3.  A record with all five keys whose price is the string \<^verbatim>\<open>abc\<close>: the
  conversion raises \<^verbatim>\<open>decimal.InvalidOperation\<close>, which none of the three \<^verbatim>\<open>except\<close>
  clauses catches, so this exception, and not a \<^verbatim>\<open>DataValidationError\<close>, reaches the
  caller.
\<close>

theorem deserialize_unparsable_price_escapes:
  "deserialize Category_attrs Product_new record_bad_price =
     Inl (InvalidOperation, Product_new\<lparr>name := PStr ''Hat'', description := PStr ''A red hat''\<rparr>)"
  by code_simp

text \<open>
  Claim C4.  The string \<^verbatim>\<open>__doc__\<close> is not the name of a member, yet \<^verbatim>\<open>getattr\<close> finds
  the attribute of that name on the class: \<^verbatim>\<open>deserialize\<close> succeeds and the category of
  the product is the docstring of the class, a value outside the enumeration.
\<close>

theorem deserialize_class_attribute_accepted:
  "Category_member ''__doc__'' = None \<and>
   deserialize Category_attrs Product_new record_doc_category =
     Inr \<lparr>product_id = None, name = PStr ''Hat'', description = PStr ''A red hat'',
          price = Some (Finite False 1250 (- 2)), available = Some True,
          category = PStr ''Enumeration of valid Product Categories''\<rparr>"
  by code_simp

text \<open>
  The paths beside the two above.  A price that is \<^verbatim>\<open>None\<close> raises \<^verbatim>\<open>TypeError\<close>, which
  \<^verbatim>\<open>deserialize\<close> turns into the validation error; so does a category that is neither a
  member name nor another attribute of the class, through \<^verbatim>\<open>AttributeError\<close>.
\<close>

lemma deserialize_none_price:
  assumes "map_of kvs ''name'' = Some v1" and "map_of kvs ''description'' = Some v2"
    and "map_of kvs ''price'' = Some PNone"
  shows "deserialize attrs self (PDict kvs) =
           Inl (DataValidationError
                  (''Invalid product: body of request contained bad or no data ''
                     @ ''conversion from NoneType to Decimal is not supported''),
                self\<lparr>name := v1, description := v2\<rparr>)"
  using assms by (simp add: deserialize_def deserialize_try_def)

lemma deserialize_unknown_category:
  assumes "map_of kvs ''name'' = Some v1" and "map_of kvs ''description'' = Some v2"
    and "map_of kvs ''price'' = Some v3" and "Decimal_new v3 = Inr d"
    and "map_of kvs ''available'' = Some (PBool b)"
    and "map_of kvs ''category'' = Some (PStr s)"
    and "Category_member s = None" and "attrs s = None"
  shows "deserialize attrs self (PDict kvs) =
           Inl (DataValidationError (''Invalid attribute: '' @ s),
                self\<lparr>name := v1, description := v2, price := Some d, available := Some b\<rparr>)"
  using assms by (simp add: deserialize_def deserialize_try_def)

text \<open>
  Claim C2, as stated, fails: the record below has no \<^verbatim>\<open>category\<close> key, and its
  \<^verbatim>\<open>available\<close> is the string \<^verbatim>\<open>yes\<close>.  The fields are processed in order, so the
  failure reported is the one of \<^verbatim>\<open>available\<close>; the message does not name the missing
  key.
\<close>

theorem deserialize_missing_category_counterexample:
  "getitem record_no_category ''category'' = Inl (KeyError ''category'') \<and>
   deserialize Category_attrs Product_new record_no_category =
     Inl (DataValidationError (''Invalid type for boolean [available]: <class '' @ squote ''str'' @ ''>''),
          Product_new\<lparr>name := PStr ''Hat'', description := PStr ''A red hat'',
                       price := Some (Finite False 1250 (- 2))\<rparr>)"
  by code_simp

lemma first_missing_cases:
  assumes "find (\<lambda>k. map_of kvs k = None) required_keys = Some k"
  shows "(k = ''name'' \<and> map_of kvs ''name'' = None)
       \<or> (k = ''description'' \<and> map_of kvs ''name'' \<noteq> None \<and> map_of kvs ''description'' = None)
       \<or> (k = ''price'' \<and> map_of kvs ''name'' \<noteq> None \<and> map_of kvs ''description'' \<noteq> None
            \<and> map_of kvs ''price'' = None)
       \<or> (k = ''available'' \<and> map_of kvs ''name'' \<noteq> None \<and> map_of kvs ''description'' \<noteq> None
            \<and> map_of kvs ''price'' \<noteq> None \<and> map_of kvs ''available'' = None)
       \<or> (k = ''category'' \<and> map_of kvs ''name'' \<noteq> None \<and> map_of kvs ''description'' \<noteq> None
            \<and> map_of kvs ''price'' \<noteq> None \<and> map_of kvs ''available'' \<noteq> None
            \<and> map_of kvs ''category'' = None)"
  using assms by (simp add: required_keys_def split: if_splits)

lemma deserialize_missing_name:
  assumes "map_of kvs ''name'' = None"
  shows "deserialize attrs self (PDict kvs) =
           Inl (DataValidationError ''Invalid product: missing name'', self)"
  using assms by (simp add: deserialize_def deserialize_try_def)

lemma deserialize_missing_description:
  assumes "map_of kvs ''name'' = Some v1" and "map_of kvs ''description'' = None"
  shows "deserialize attrs self (PDict kvs) =
           Inl (DataValidationError ''Invalid product: missing description'', self\<lparr>name := v1\<rparr>)"
  using assms by (simp add: deserialize_def deserialize_try_def)

lemma deserialize_missing_price:
  assumes "map_of kvs ''name'' = Some v1" and "map_of kvs ''description'' = Some v2"
    and "map_of kvs ''price'' = None"
  shows "deserialize attrs self (PDict kvs) =
           Inl (DataValidationError ''Invalid product: missing price'',
                self\<lparr>name := v1, description := v2\<rparr>)"
  using assms by (simp add: deserialize_def deserialize_try_def)

lemma deserialize_missing_available:
  assumes "map_of kvs ''name'' = Some v1" and "map_of kvs ''description'' = Some v2"
    and "map_of kvs ''price'' = Some v3" and "Decimal_new v3 = Inr d"
    and "map_of kvs ''available'' = None"
  shows "deserialize attrs self (PDict kvs) =
           Inl (DataValidationError ''Invalid product: missing available'',
                self\<lparr>name := v1, description := v2, price := Some d\<rparr>)"
  using assms by (simp add: deserialize_def deserialize_try_def)

lemma deserialize_missing_category:
  assumes "map_of kvs ''name'' = Some v1" and "map_of kvs ''description'' = Some v2"
    and "map_of kvs ''price'' = Some v3" and "Decimal_new v3 = Inr d"
    and "map_of kvs ''available'' = Some (PBool b)"
    and "map_of kvs ''category'' = None"
  shows "deserialize attrs self (PDict kvs) =
           Inl (DataValidationError ''Invalid product: missing category'',
                self\<lparr>name := v1, description := v2, price := Some d, available := Some b\<rparr>)"
  using assms by (simp add: deserialize_def deserialize_try_def)

text \<open>
  Claim C2, amended.  Let \<open>k\<close> be the first of the keys name, description, price,
  available, category that the record lacks, and let every field before \<open>k\<close> be accepted:
  the price converts to a decimal when \<open>k\<close> comes after it, and \<^verbatim>\<open>available\<close> is a
  boolean when \<open>k\<close> is \<^verbatim>\<open>category\<close>.  Then \<^verbatim>\<open>deserialize\<close> fails with the validation
  error whose message is \<^verbatim>\<open>Invalid product: missing\<close> followed by \<open>k\<close>.
\<close>

theorem deserialize_missing_key:
  assumes first: "find (\<lambda>k. map_of kvs k = None) required_keys = Some k"
    and price_ok: "k = ''available'' \<or> k = ''category'' \<Longrightarrow>
                     \<exists>v d. map_of kvs ''price'' = Some v \<and> Decimal_new v = Inr d"
    and available_ok: "k = ''category'' \<Longrightarrow> \<exists>b. map_of kvs ''available'' = Some (PBool b)"
  shows "\<exists>self'. deserialize attrs self (PDict kvs) =
           Inl (DataValidationError (''Invalid product: missing '' @ k), self')"
  using first_missing_cases [OF first]
proof (elim disjE conjE)
  assume "k = ''name''" "map_of kvs ''name'' = None"
  then show ?thesis
    using deserialize_missing_name [of kvs attrs self] by simp
next
  assume k: "k = ''description''" and "map_of kvs ''name'' \<noteq> None"
    and d: "map_of kvs ''description'' = None"
  then obtain v1 where "map_of kvs ''name'' = Some v1"
    by (cases "map_of kvs ''name''") simp_all
  then show ?thesis
    using deserialize_missing_description [of kvs v1 attrs self] k d by simp
next
  assume k: "k = ''price''" and "map_of kvs ''name'' \<noteq> None"
    and "map_of kvs ''description'' \<noteq> None" and p: "map_of kvs ''price'' = None"
  then obtain v1 v2 where "map_of kvs ''name'' = Some v1" "map_of kvs ''description'' = Some v2"
    by (cases "map_of kvs ''name''"; cases "map_of kvs ''description''") simp_all
  then show ?thesis
    using deserialize_missing_price [of kvs v1 v2 attrs self] k p by simp
next
  assume k: "k = ''available''" and "map_of kvs ''name'' \<noteq> None"
    and "map_of kvs ''description'' \<noteq> None" and a: "map_of kvs ''available'' = None"
  then obtain v1 v2 where v: "map_of kvs ''name'' = Some v1" "map_of kvs ''description'' = Some v2"
    by (cases "map_of kvs ''name''"; cases "map_of kvs ''description''") simp_all
  from k price_ok obtain v3 d where "map_of kvs ''price'' = Some v3" "Decimal_new v3 = Inr d"
    by auto
  then show ?thesis
    using deserialize_missing_available [of kvs v1 v2 v3 d attrs self] k a v by simp
next
  assume k: "k = ''category''" and "map_of kvs ''name'' \<noteq> None"
    and "map_of kvs ''description'' \<noteq> None" and c: "map_of kvs ''category'' = None"
  then obtain v1 v2 where v: "map_of kvs ''name'' = Some v1" "map_of kvs ''description'' = Some v2"
    by (cases "map_of kvs ''name''"; cases "map_of kvs ''description''") simp_all
  from k price_ok obtain v3 d where p: "map_of kvs ''price'' = Some v3" "Decimal_new v3 = Inr d"
    by auto
  from k available_ok obtain b where "map_of kvs ''available'' = Some (PBool b)"
    by auto
  then show ?thesis
    using deserialize_missing_category [of kvs v1 v2 v3 d b attrs self] k c v p by simp
qed

theorem deserialize_missing_key_witness:
  "find (\<lambda>k. map_of kvs_no_available k = None) required_keys = Some ''available'' \<and>
   (\<exists>v d. map_of kvs_no_available ''price'' = Some v \<and> Decimal_new v = Inr d) \<and>
   (\<exists>self'. deserialize Category_attrs Product_new (PDict kvs_no_available) =
      Inl (DataValidationError (''Invalid product: missing '' @ ''available''), self'))"
proof -
  have f: "find (\<lambda>k. map_of kvs_no_available k = None) required_keys = Some ''available''"
    by (simp add: kvs_no_available_def required_keys_def)
  have "Decimal_new (PStr ''12.50'') = Inr (Finite False 1250 (- 2))"
    by code_simp
  moreover have "map_of kvs_no_available ''price'' = Some (PStr ''12.50'')"
    by (simp add: kvs_no_available_def)
  ultimately have p: "\<exists>v d. map_of kvs_no_available ''price'' = Some v \<and> Decimal_new v = Inr d"
    by blast
  have c: "\<exists>self'. deserialize Category_attrs Product_new (PDict kvs_no_available) =
      Inl (DataValidationError (''Invalid product: missing '' @ ''available''), self')"
    by (rule deserialize_missing_key [OF f]) (use p in simp_all)
  from f p c show ?thesis
    by (intro conjI)
qed

lemma deserialize_try_failure:
  assumes "deserialize_try attrs self data = Inl (e, self')"
  shows "(\<forall>v1. getitem data ''name'' = Inr v1 \<longrightarrow> name self' = v1)
       \<and> (\<forall>v1 v2. getitem data ''name'' = Inr v1 \<and> getitem data ''description'' = Inr v2
            \<longrightarrow> description self' = v2)
       \<and> (\<forall>v1 v2 v3 d. getitem data ''name'' = Inr v1 \<and> getitem data ''description'' = Inr v2
            \<and> getitem data ''price'' = Inr v3 \<and> Decimal_new v3 = Inr d
            \<longrightarrow> price self' = Some d)
       \<and> (\<forall>v1 v2 v3 d b. getitem data ''name'' = Inr v1 \<and> getitem data ''description'' = Inr v2
            \<and> getitem data ''price'' = Inr v3 \<and> Decimal_new v3 = Inr d
            \<and> getitem data ''available'' = Inr (PBool b)
            \<longrightarrow> available self' = Some b)
       \<and> product_id self' = product_id self \<and> category self' = category self"
  using assms
  by (auto simp add: deserialize_try_def Let_def split: sum.splits pyval.splits)

lemma deserialize_failure_state:
  assumes "deserialize attrs self data = Inl (e, self')"
  shows "\<exists>e0. deserialize_try attrs self data = Inl (e0, self')"
  using assms
  by (auto simp add: deserialize_def split: sum.splits prod.splits pyerr.splits)

text \<open>
  Claim C9.  When \<^verbatim>\<open>deserialize\<close> raises, the object keeps what the assignments before
  the failure stored: if the name was read, the object has the new name; if name and
  description were read, it has the new description; if moreover the price was read and
  converted, it has the new price; if moreover \<^verbatim>\<open>available\<close> was read and is a boolean,
  it has the new flag.  Nothing is restored to the values the object had before the call;
  the identifier and the category are as before the call.
\<close>

theorem deserialize_not_atomic:
  assumes "deserialize attrs self data = Inl (e, self')"
  shows "(\<forall>v1. getitem data ''name'' = Inr v1 \<longrightarrow> name self' = v1)
       \<and> (\<forall>v1 v2. getitem data ''name'' = Inr v1 \<and> getitem data ''description'' = Inr v2
            \<longrightarrow> description self' = v2)
       \<and> (\<forall>v1 v2 v3 d. getitem data ''name'' = Inr v1 \<and> getitem data ''description'' = Inr v2
            \<and> getitem data ''price'' = Inr v3 \<and> Decimal_new v3 = Inr d
            \<longrightarrow> price self' = Some d)
       \<and> (\<forall>v1 v2 v3 d b. getitem data ''name'' = Inr v1 \<and> getitem data ''description'' = Inr v2
            \<and> getitem data ''price'' = Inr v3 \<and> Decimal_new v3 = Inr d
            \<and> getitem data ''available'' = Inr (PBool b)
            \<longrightarrow> available self' = Some b)
       \<and> product_id self' = product_id self \<and> category self' = category self"
proof -
  from assms obtain e0 where "deserialize_try attrs self data = Inl (e0, self')"
    using deserialize_failure_state by blast
  then show ?thesis
    by (rule deserialize_try_failure)
qed


theorem deserialize_not_atomic_witness:
  "deserialize Category_attrs fedora record_no_category =
     Inl (DataValidationError (''Invalid type for boolean [available]: <class '' @ squote ''str'' @ ''>''),
          fedora\<lparr>name := PStr ''Hat'', description := PStr ''A red hat''\<rparr>)
   \<and> name (fedora\<lparr>name := PStr ''Hat'', description := PStr ''A red hat''\<rparr>) = PStr ''Hat''
   \<and> name fedora = PStr ''Fedora''"
proof -
  have run: "deserialize Category_attrs fedora record_no_category =
     Inl (DataValidationError (''Invalid type for boolean [available]: <class '' @ squote ''str'' @ ''>''),
          fedora\<lparr>name := PStr ''Hat'', description := PStr ''A red hat''\<rparr>)"
    by code_simp
  have key: "getitem record_no_category ''name'' = Inr (PStr ''Hat'')"
    by (simp add: record_no_category_def)
  from deserialize_not_atomic [OF run] key
  have "name (fedora\<lparr>name := PStr ''Hat'', description := PStr ''A red hat''\<rparr>) = PStr ''Hat''"
    by simp
  moreover have "name fedora = PStr ''Fedora''"
    by (simp add: fedora_def)
  ultimately show ?thesis
    using run by simp
qed

subsection \<open>The session and \<^verbatim>\<open>update\<close>\<close>

lemma flush_tracked:
  assumes "\<forall>(r, k) \<in> set sess. (r = self \<and> k = i) \<or> (r \<noteq> self \<and> k \<noteq> i \<and> t k = Some (objs r))"
    and "product_id (objs self) = Some i" and "accepts (objs self)" and "t i \<noteq> None"
  shows "flush accepts objs sess t = Inr (if self \<in> fst ` set sess then t(i \<mapsto> objs self) else t)"
  using assms
proof (induction sess arbitrary: t)
  case Nil
  then show ?case by simp
next
  case (Cons a rest)
  obtain r k where a: "a = (r, k)" by (cases a)
  show ?case
  proof (cases "r = self")
    case True
    with Cons.prems(1) a have k: "k = i" by auto
    have rest: "\<forall>(r, k) \<in> set rest. (r = self \<and> k = i)
        \<or> (r \<noteq> self \<and> k \<noteq> i \<and> (t(i \<mapsto> objs self)) k = Some (objs r))"
      using Cons.prems(1) by auto
    have upd: "(t(i \<mapsto> objs self)) i \<noteq> None" by simp
    have "flush accepts objs rest (t(i \<mapsto> objs self))
        = Inr (if self \<in> fst ` set rest then (t(i \<mapsto> objs self))(i \<mapsto> objs self)
               else t(i \<mapsto> objs self))"
      by (rule Cons.IH [OF rest Cons.prems(2,3) upd])
    then have ih: "flush accepts objs rest (t(i \<mapsto> objs self)) = Inr (t(i \<mapsto> objs self))"
      by (simp only: fun_upd_upd if_cancel)
    show ?thesis
    proof (cases "t i = Some (objs self)")
      case clean: True
      then have same: "t(i \<mapsto> objs self) = t" by (rule map_upd_triv)
      from clean have "flush accepts objs ((self, i) # rest) t = flush accepts objs rest t"
        by simp
      also have "\<dots> = Inr t"
        using ih by (simp only: same)
      finally have f: "flush accepts objs ((self, i) # rest) t = Inr t" .
      have mem: "self \<in> fst ` set ((self, i) # rest)" by simp
      show ?thesis
        unfolding a True k by (simp only: f mem if_True same)
    next
      case False
      from Cons.prems(4) obtain y where y: "t i = Some y" by auto
      with False have "y \<noteq> objs self" by simp
      with y Cons.prems(2,3) have "flush accepts objs ((self, i) # rest) t
          = flush accepts objs rest (t(i \<mapsto> objs self))"
        by simp
      also note ih
      finally have f: "flush accepts objs ((self, i) # rest) t = Inr (t(i \<mapsto> objs self))" .
      have mem: "self \<in> fst ` set ((self, i) # rest)" by simp
      show ?thesis
        unfolding a True k by (simp only: f mem if_True)
    qed
  next
    case False
    with Cons.prems(1) a have c: "k \<noteq> i" "t k = Some (objs r)" by auto
    have rest: "\<forall>(r, k) \<in> set rest. (r = self \<and> k = i)
        \<or> (r \<noteq> self \<and> k \<noteq> i \<and> t k = Some (objs r))"
      using Cons.prems(1) by auto
    from Cons.IH [OF rest Cons.prems(2,3,4)] a False c show ?thesis by simp
  qed
qed

text \<open>
  Claim C8, amended.  With an identifier that is \<^verbatim>\<open>None\<close> or zero, \<^verbatim>\<open>update\<close> raises
  \<^verbatim>\<open>DataValidationError\<close> and the state is unchanged.  With a nonzero identifier \<open>i\<close>,
  when the session tracks the object as the one of row \<open>i\<close>, the row exists, the table
  accepts the current values of the object, and every other object that the session
  tracks stands for another row and equals it, \<^verbatim>\<open>update\<close> succeeds: afterwards row \<open>i\<close>
  holds the current values of the object and every other row is as before.
\<close>

theorem update_commits_tracked:
  "(product_id (objects st self) = None \<or> product_id (objects st self) = Some 0 \<longrightarrow>
      update accepts self st = (Inl (DataValidationError ''Update called with empty ID field''), st))
   \<and> (product_id (objects st self) = Some i \<and> i \<noteq> 0
        \<and> (self, i) \<in> set (session st)
        \<and> (\<forall>(r, k) \<in> set (session st).
              (r = self \<and> k = i) \<or> (r \<noteq> self \<and> k \<noteq> i \<and> table st k = Some (objects st r)))
        \<and> table st i \<noteq> None
        \<and> accepts (objects st self) \<longrightarrow>
        (\<exists>st'. update accepts self st = (Inr (), st')
           \<and> table st' = (table st)(i \<mapsto> objects st self)
           \<and> objects st' = objects st))"
proof (intro conjI impI)
  assume "product_id (objects st self) = None \<or> product_id (objects st self) = Some 0"
  then show "update accepts self st = (Inl (DataValidationError ''Update called with empty ID field''), st)"
    by (auto simp add: update_def falsy_id_def)
next
  assume h: "product_id (objects st self) = Some i \<and> i \<noteq> 0
        \<and> (self, i) \<in> set (session st)
        \<and> (\<forall>(r, k) \<in> set (session st).
              (r = self \<and> k = i) \<or> (r \<noteq> self \<and> k \<noteq> i \<and> table st k = Some (objects st r)))
        \<and> table st i \<noteq> None
        \<and> accepts (objects st self)"
  then have tracked: "self \<in> fst ` set (session st)"
    by force
  from h have "flush accepts (objects st) (session st) (table st)
      = Inr (if self \<in> fst ` set (session st) then (table st)(i \<mapsto> objects st self) else table st)"
    by (intro flush_tracked) simp_all
  with tracked have "flush accepts (objects st) (session st) (table st)
      = Inr ((table st)(i \<mapsto> objects st self))"
    by simp
  with h show "\<exists>st'. update accepts self st = (Inr (), st')
           \<and> table st' = (table st)(i \<mapsto> objects st self)
           \<and> objects st' = objects st"
    by (simp add: update_def falsy_id_def session_commit_def)
qed

lemma columns_accept_samples:
  "columns_accept fedora_edited" "\<not> columns_accept (fedora\<lparr>name := PNone\<rparr>)"
  "\<not> columns_accept (apple\<lparr>name := PNone\<rparr>)"
  by (simp_all add: columns_accept_def fedora_edited_def fedora_def)

text \<open>
  Claim C8, as stated, fails.  Three objects have the identifier 7, a nonzero identifier
  of an existing row, and differ from that row, yet \<^verbatim>\<open>update\<close> does not write them.  In
  the first state the session tracks the object, but its name is \<^verbatim>\<open>None\<close> and the column
  is declared \<^verbatim>\<open>nullable=False\<close>: the commit raises and the row is as before.  In the
  second state the session does not track the object: the commit, which receives no
  reference to it, succeeds and writes nothing.  In the third state the object is tracked
  and its values are accepted, but another tracked object is rejected: the commit raises
  and the row is as before.
\<close>

theorem update_not_persisted_counterexample:
  "product_id (objects orm_null_name 0) = Some 7
   \<and> session orm_null_name = [(0, 7)]
   \<and> update columns_accept 0 orm_null_name = (Inl SQLAlchemyError, orm_null_name)
   \<and> table orm_null_name 7 = Some fedora
   \<and> objects orm_null_name 0 \<noteq> fedora
   \<and> product_id (objects orm_untracked 0) = Some 7
   \<and> update columns_accept 0 orm_untracked = (Inr (), orm_untracked)
   \<and> table orm_untracked 7 = Some fedora
   \<and> objects orm_untracked 0 \<noteq> fedora
   \<and> product_id (objects orm_other_rejected 0) = Some 7
   \<and> columns_accept (objects orm_other_rejected 0)
   \<and> update columns_accept 0 orm_other_rejected = (Inl SQLAlchemyError, orm_other_rejected)
   \<and> table orm_other_rejected 7 = Some fedora
   \<and> objects orm_other_rejected 0 \<noteq> fedora"
proof -
  have n: "update columns_accept 0 orm_null_name = (Inl SQLAlchemyError, orm_null_name)"
    by (simp add: orm_null_name_def shop_table_def update_def falsy_id_def session_commit_def
          columns_accept_samples)
       (simp add: fedora_def)
  have u: "update columns_accept 0 orm_untracked = (Inr (), orm_untracked)"
    by (simp add: orm_untracked_def update_def falsy_id_def session_commit_def fedora_edited_def)
       (simp add: fedora_def)
  have o: "update columns_accept 0 orm_other_rejected = (Inl SQLAlchemyError, orm_other_rejected)"
    by (simp add: orm_other_rejected_def shop_table_def update_def falsy_id_def session_commit_def
          columns_accept_samples)
       (simp add: fedora_edited_def fedora_def apple_def columns_accept_def)
  have rest: "product_id (objects orm_null_name 0) = Some 7" "session orm_null_name = [(0, 7)]"
      "table orm_null_name 7 = Some fedora" "objects orm_null_name 0 \<noteq> fedora"
      "product_id (objects orm_untracked 0) = Some 7" "table orm_untracked 7 = Some fedora"
      "objects orm_untracked 0 \<noteq> fedora" "product_id (objects orm_other_rejected 0) = Some 7"
      "columns_accept (objects orm_other_rejected 0)" "table orm_other_rejected 7 = Some fedora"
      "objects orm_other_rejected 0 \<noteq> fedora"
    by (simp_all add: orm_null_name_def orm_untracked_def orm_other_rejected_def shop_table_def
          columns_accept_samples)
       (simp_all add: fedora_edited_def fedora_def)
  from n u o rest show ?thesis
    by (intro conjI)
qed

theorem update_commits_tracked_witness:
  "product_id (objects orm_edited 0) = Some 7
   \<and> (0, 7) \<in> set (session orm_edited)
   \<and> columns_accept (objects orm_edited 0)
   \<and> (\<exists>st'. update columns_accept 0 orm_edited = (Inr (), st')
         \<and> table st' 7 = Some fedora_edited \<and> table st' 8 = Some apple
         \<and> table orm_edited 7 = Some fedora)
   \<and> product_id (objects (orm_edited\<lparr>objects := \<lambda>r. fedora\<lparr>product_id := Some 0\<rparr>\<rparr>) 0) = Some 0
   \<and> update columns_accept 0 (orm_edited\<lparr>objects := \<lambda>r. fedora\<lparr>product_id := Some 0\<rparr>\<rparr>)
       = (Inl (DataValidationError ''Update called with empty ID field''),
          orm_edited\<lparr>objects := \<lambda>r. fedora\<lparr>product_id := Some 0\<rparr>\<rparr>)"
proof -
  have id7: "product_id (objects orm_edited 0) = Some 7"
    by (simp add: orm_edited_def fedora_edited_def fedora_def)
  have tr: "(0, 7) \<in> set (session orm_edited)"
    by (simp add: orm_edited_def)
  have others: "\<forall>(r, k) \<in> set (session orm_edited).
      (r = 0 \<and> k = 7) \<or> (r \<noteq> 0 \<and> k \<noteq> 7 \<and> table orm_edited k = Some (objects orm_edited r))"
    by (simp add: orm_edited_def shop_table_def)
  have row: "table orm_edited 7 = Some fedora"
    by (simp add: orm_edited_def shop_table_def)
  have acc: "columns_accept (objects orm_edited 0)"
    by (simp add: orm_edited_def columns_accept_samples)
  note inst = update_commits_tracked [of orm_edited 0 columns_accept 7]
  from inst id7 tr others row acc
  obtain st' where u: "update columns_accept 0 orm_edited = (Inr (), st')"
      and t: "table st' = (table orm_edited)(7 \<mapsto> objects orm_edited 0)"
    by auto
  have t7: "table st' 7 = Some fedora_edited"
    by (simp add: t orm_edited_def)
  have t8: "table st' 8 = Some apple"
    by (simp add: t orm_edited_def shop_table_def)
  have z: "product_id (objects (orm_edited\<lparr>objects := \<lambda>r. fedora\<lparr>product_id := Some 0\<rparr>\<rparr>) 0) = Some 0"
    by simp
  have g: "update columns_accept 0 (orm_edited\<lparr>objects := \<lambda>r. fedora\<lparr>product_id := Some 0\<rparr>\<rparr>)
       = (Inl (DataValidationError ''Update called with empty ID field''),
          orm_edited\<lparr>objects := \<lambda>r. fedora\<lparr>product_id := Some 0\<rparr>\<rparr>)"
    using update_commits_tracked
      [of "orm_edited\<lparr>objects := \<lambda>r. fedora\<lparr>product_id := Some 0\<rparr>\<rparr>" 0 columns_accept] z
    by simp
  from id7 tr acc u t7 t8 row z g show ?thesis
    by blast
qed

subsection \<open>The store\<close>

text \<open>
  Claim C5.  Let \<open>s\<close> be a string that \<^verbatim>\<open>Decimal\<close> converts to the decimal \<open>d\<close> (the
  string \<^verbatim>\<open>str(d)\<close> is one, by \<open>Decimal_new_str\<close>).  For every table, \<^verbatim>\<open>find_by_price\<close>
  of \<open>s\<close> with any run of spaces and double quotes before and after it returns what
  \<^verbatim>\<open>find_by_price\<close> of \<open>d\<close> itself returns: the rows whose price equals \<open>d\<close>.
\<close>

theorem find_by_price_padded:
  assumes "Decimal_new (PStr s) = Inr d"
    and "set pad1 \<subseteq> {CHR '' '', CHR 0x22}" and "set pad2 \<subseteq> {CHR '' '', CHR 0x22}"
  shows "find_by_price rows (PStr (pad1 @ s @ pad2)) = find_by_price rows (PDec d)
       \<and> find_by_price rows (PDec d)
           = Inr (filter (\<lambda>p. case price p of None \<Rightarrow> False | Some x \<Rightarrow> dec_eq x d) rows)"
proof -
  have m: "price_matches (PDec d) = (\<lambda>p. case price p of None \<Rightarrow> False | Some x \<Rightarrow> dec_eq x d)"
    by (rule ext) (simp add: price_matches_def split: option.splits)
  show ?thesis
    using Decimal_new_padded_quotes [OF assms]
    by (simp add: find_by_price_def m del: Decimal_new.simps)
qed

theorem find_by_price_padded_witness:
  "Decimal_new (PStr ''12.50'') = Inr (Finite False 1250 (- 2))
   \<and> set ''  '' \<subseteq> {CHR '' '', CHR 0x22} \<and> set [CHR 0x22, CHR '' ''] \<subseteq> {CHR '' '', CHR 0x22}
   \<and> find_by_price shop (PStr (''  '' @ ''12.50'' @ [CHR 0x22, CHR '' '']))
       = find_by_price shop (PDec (Finite False 1250 (- 2)))
   \<and> find_by_price shop (PDec (Finite False 1250 (- 2))) = Inr [fedora]"
proof -
  have h0: "Decimal_new (PStr ''12.50'') = Inr (Finite False 1250 (- 2))"
    by code_simp
  have h1: "set ''  '' \<subseteq> {CHR '' '', CHR 0x22}" and h2: "set [CHR 0x22, CHR '' ''] \<subseteq> {CHR '' '', CHR 0x22}"
    by simp_all
  have f: "filter (\<lambda>p. case price p of None \<Rightarrow> False | Some x \<Rightarrow> dec_eq x (Finite False 1250 (- 2))) shop
             = [fedora]"
    by (simp add: shop_def fedora_def apple_def)
  note inst = find_by_price_padded [OF h0 h1 h2, of shop]
  from inst have 1: "find_by_price shop (PStr (''  '' @ ''12.50'' @ [CHR 0x22, CHR '' '']))
       = find_by_price shop (PDec (Finite False 1250 (- 2)))"
    by (elim conjE)
  from inst f have 2: "find_by_price shop (PDec (Finite False 1250 (- 2))) = Inr [fedora]"
    by (elim conjE) simp
  from h0 h1 h2 1 2 show ?thesis
    by (intro conjI)
qed

subsection \<open>The listing handler\<close>

text \<open>
  Claim C7.  A listing request whose only parameter is \<^verbatim>\<open>category=xyz\<close>: the lookup of
  \<^verbatim>\<open>XYZ\<close> on the class raises \<^verbatim>\<open>AttributeError\<close>, and the handler lets it pass; it
  neither aborts with a 4xx status nor raises the validation error.
\<close>

theorem list_products_unknown_category_raises:
  "list_products Category_attrs shop
     \<lparr>arg_name = None, arg_category = Some ''xyz'', arg_available = None\<rparr>
     = Inl (AttributeError ''XYZ'')"
  by code_simp

lemma list_products_by_name:
  "n \<noteq> [] \<Longrightarrow>
   list_products attrs rows \<lparr>arg_name = Some n, arg_category = c, arg_available = a\<rparr>
     = respond (find_by_name rows n)"
  by (simp add: list_products_def truthy_def)

lemma list_products_by_category:
  "nm = None \<or> nm = Some [] \<Longrightarrow> cs \<noteq> [] \<Longrightarrow> Category_member (py_upper cs) = Some k \<Longrightarrow>
   list_products attrs rows \<lparr>arg_name = nm, arg_category = Some cs, arg_available = a\<rparr>
     = respond (find_by_category rows (PCat k))"
  by (auto simp add: list_products_def truthy_def)

lemma list_products_by_availability:
  "nm = None \<or> nm = Some [] \<Longrightarrow> c = None \<or> c = Some [] \<Longrightarrow> av \<noteq> [] \<Longrightarrow>
   list_products attrs rows \<lparr>arg_name = nm, arg_category = c, arg_available = Some av\<rparr>
     = respond (find_by_availability rows
         (py_lower av = ''true'' \<or> py_lower av = ''yes'' \<or> py_lower av = ''1''))"
  by (auto simp add: list_products_def truthy_def)

lemma list_products_all:
  "nm = None \<or> nm = Some [] \<Longrightarrow> c = None \<or> c = Some [] \<Longrightarrow> a = None \<or> a = Some [] \<Longrightarrow>
   list_products attrs rows \<lparr>arg_name = nm, arg_category = c, arg_available = a\<rparr>
     = respond (all_products rows)"
  by (auto simp add: list_products_def truthy_def)

lemma list_products_empty_as_absent:
  "list_products attrs rows \<lparr>arg_name = Some [], arg_category = c, arg_available = a\<rparr>
     = list_products attrs rows \<lparr>arg_name = None, arg_category = c, arg_available = a\<rparr>"
  "list_products attrs rows \<lparr>arg_name = nm, arg_category = Some [], arg_available = a\<rparr>
     = list_products attrs rows \<lparr>arg_name = nm, arg_category = None, arg_available = a\<rparr>"
  "list_products attrs rows \<lparr>arg_name = nm, arg_category = c, arg_available = Some []\<rparr>
     = list_products attrs rows \<lparr>arg_name = nm, arg_category = c, arg_available = None\<rparr>"
  by (simp_all add: list_products_def truthy_def split: option.splits)

text \<open>
  Claim C6, as stated, fails: in the request below the parameter \<^verbatim>\<open>name\<close> is supplied,
  with the empty string as its value, together with \<^verbatim>\<open>category=food\<close>.  The handler
  tests the truth value of the parameter, so it applies the category filter and not the
  name filter; the two results differ on the sample table.
\<close>

theorem list_products_empty_name_counterexample:
  "list_products Category_attrs shop
     \<lparr>arg_name = Some '''', arg_category = Some ''food'', arg_available = None\<rparr>
     = respond (find_by_category shop (PCat FOOD))
   \<and> respond (find_by_category shop (PCat FOOD)) \<noteq> respond (find_by_name shop '''')"
  by code_simp

text \<open>
  Claim C6, amended.  A parameter counts when its value is a non-empty string.  If the
  name counts, the result is the listing of the rows with that name, whatever the other
  parameters are.  If the name does not count, the category counts and its upper-cased
  value is the name of a member, the result is the listing of the rows of that category.
  If neither name nor category counts and \<^verbatim>\<open>available\<close> counts, the result is the
  listing of the rows whose flag is true when the lower-cased value is \<^verbatim>\<open>true\<close>,
  \<^verbatim>\<open>yes\<close> or \<^verbatim>\<open>1\<close>, and of the rows whose flag is false otherwise.  If no parameter
  counts, the result is the listing of all rows.
\<close>

theorem list_products_precedence:
  "(n \<noteq> [] \<longrightarrow>
      list_products attrs rows \<lparr>arg_name = Some n, arg_category = c, arg_available = a\<rparr>
        = respond (find_by_name rows n))
   \<and> ((nm = None \<or> nm = Some []) \<and> cs \<noteq> [] \<and> Category_member (py_upper cs) = Some k \<longrightarrow>
      list_products attrs rows \<lparr>arg_name = nm, arg_category = Some cs, arg_available = a\<rparr>
        = respond (find_by_category rows (PCat k)))
   \<and> ((nm = None \<or> nm = Some []) \<and> (c = None \<or> c = Some []) \<and> av \<noteq> [] \<longrightarrow>
      list_products attrs rows \<lparr>arg_name = nm, arg_category = c, arg_available = Some av\<rparr>
        = respond (find_by_availability rows
            (py_lower av = ''true'' \<or> py_lower av = ''yes'' \<or> py_lower av = ''1'')))
   \<and> ((nm = None \<or> nm = Some []) \<and> (c = None \<or> c = Some []) \<and> (a = None \<or> a = Some []) \<longrightarrow>
      list_products attrs rows \<lparr>arg_name = nm, arg_category = c, arg_available = a\<rparr>
        = respond (all_products rows))"
proof (intro conjI impI)
  assume "n \<noteq> []"
  then show "list_products attrs rows \<lparr>arg_name = Some n, arg_category = c, arg_available = a\<rparr>
        = respond (find_by_name rows n)"
    by (rule list_products_by_name)
next
  assume "(nm = None \<or> nm = Some []) \<and> cs \<noteq> [] \<and> Category_member (py_upper cs) = Some k"
  then show "list_products attrs rows \<lparr>arg_name = nm, arg_category = Some cs, arg_available = a\<rparr>
        = respond (find_by_category rows (PCat k))"
    by (intro list_products_by_category) simp_all
next
  assume "(nm = None \<or> nm = Some []) \<and> (c = None \<or> c = Some []) \<and> av \<noteq> []"
  then show "list_products attrs rows \<lparr>arg_name = nm, arg_category = c, arg_available = Some av\<rparr>
        = respond (find_by_availability rows
            (py_lower av = ''true'' \<or> py_lower av = ''yes'' \<or> py_lower av = ''1''))"
    by (intro list_products_by_availability) simp_all
next
  assume "(nm = None \<or> nm = Some []) \<and> (c = None \<or> c = Some []) \<and> (a = None \<or> a = Some [])"
  then show "list_products attrs rows \<lparr>arg_name = nm, arg_category = c, arg_available = a\<rparr>
        = respond (all_products rows)"
    by (intro list_products_all) simp_all
qed

lemma respond_shop_rows:
  "respond [fedora] = Inr ([fedora_json], 200)"
  "respond [apple] = Inr ([apple_json], 200)"
  "respond shop = Inr ([fedora_json, apple_json], 200)"
  by code_simp+

theorem list_products_precedence_witness:
  "list_products Category_attrs shop
      \<lparr>arg_name = Some ''Fedora'', arg_category = Some ''food'', arg_available = Some ''no''\<rparr>
     = Inr ([fedora_json], 200)
   \<and> list_products Category_attrs shop
      \<lparr>arg_name = None, arg_category = Some ''food'', arg_available = Some ''TRUE''\<rparr>
     = Inr ([apple_json], 200)
   \<and> list_products Category_attrs shop
      \<lparr>arg_name = None, arg_category = None, arg_available = Some ''Yes''\<rparr>
     = Inr ([fedora_json], 200)
   \<and> list_products Category_attrs shop
      \<lparr>arg_name = None, arg_category = None, arg_available = None\<rparr>
     = Inr ([fedora_json, apple_json], 200)"
proof -
  have up: "Category_member (py_upper ''food'') = Some FOOD"
    by code_simp
  have low: "py_lower ''Yes'' = ''yes''"
    by code_simp
  have sel: "find_by_name shop ''Fedora'' = [fedora]" "find_by_category shop (PCat FOOD) = [apple]"
      "find_by_availability shop True = [fedora]" "all_products shop = shop"
    by (simp_all add: find_by_name_def find_by_category_def find_by_availability_def
          all_products_def shop_def fedora_def apple_def)
  have 1: "list_products Category_attrs shop
      \<lparr>arg_name = Some ''Fedora'', arg_category = Some ''food'', arg_available = Some ''no''\<rparr>
     = respond (find_by_name shop ''Fedora'')"
    using list_products_precedence [of "''Fedora''" Category_attrs shop "Some ''food''" "Some ''no''"]
    by simp
  have 2: "list_products Category_attrs shop
      \<lparr>arg_name = None, arg_category = Some ''food'', arg_available = Some ''TRUE''\<rparr>
     = respond (find_by_category shop (PCat FOOD))"
    using list_products_precedence [of _ Category_attrs shop _ "Some ''TRUE''" None "''food''" FOOD] up
    by simp
  have 3: "list_products Category_attrs shop
      \<lparr>arg_name = None, arg_category = None, arg_available = Some ''Yes''\<rparr>
     = respond (find_by_availability shop True)"
    using list_products_precedence [of _ Category_attrs shop None _ None _ _ "''Yes''"] low
    by simp
  have 4: "list_products Category_attrs shop
      \<lparr>arg_name = None, arg_category = None, arg_available = None\<rparr>
     = respond (all_products shop)"
    using list_products_precedence [of _ Category_attrs shop None None None]
    by simp
  show ?thesis
    unfolding 1 2 3 4 sel by (simp add: respond_shop_rows)
qed

text \<open>
  Claim C10.  A parameter whose value is the empty string is treated as an absent one:
  replacing it by an absent parameter does not change the result of the handler.  In
  particular an empty name with a category that names a member gives the listing of that
  category, and three empty parameters give the listing of all rows.
\<close>

theorem list_products_empty_parameter:
  "list_products attrs rows \<lparr>arg_name = Some [], arg_category = c, arg_available = a\<rparr>
     = list_products attrs rows \<lparr>arg_name = None, arg_category = c, arg_available = a\<rparr>
   \<and> list_products attrs rows \<lparr>arg_name = nm, arg_category = Some [], arg_available = a\<rparr>
     = list_products attrs rows \<lparr>arg_name = nm, arg_category = None, arg_available = a\<rparr>
   \<and> list_products attrs rows \<lparr>arg_name = nm, arg_category = c, arg_available = Some []\<rparr>
     = list_products attrs rows \<lparr>arg_name = nm, arg_category = c, arg_available = None\<rparr>
   \<and> (cs \<noteq> [] \<and> Category_member (py_upper cs) = Some k \<longrightarrow>
        list_products attrs rows \<lparr>arg_name = Some [], arg_category = Some cs, arg_available = a\<rparr>
          = respond (find_by_category rows (PCat k)))
   \<and> list_products attrs rows \<lparr>arg_name = Some [], arg_category = Some [], arg_available = Some []\<rparr>
     = respond (all_products rows)"
proof (intro conjI impI)
  assume "cs \<noteq> [] \<and> Category_member (py_upper cs) = Some k"
  then show "list_products attrs rows \<lparr>arg_name = Some [], arg_category = Some cs, arg_available = a\<rparr>
          = respond (find_by_category rows (PCat k))"
    by (intro list_products_by_category) simp_all
next
  show "list_products attrs rows \<lparr>arg_name = Some [], arg_category = Some [], arg_available = Some []\<rparr>
     = respond (all_products rows)"
    by (intro list_products_all) simp_all
qed (rule list_products_empty_as_absent)+

theorem list_products_empty_parameter_witness:
  "''food'' \<noteq> [] \<and> Category_member (py_upper ''food'') = Some FOOD
   \<and> list_products Category_attrs shop
        \<lparr>arg_name = Some [], arg_category = Some ''food'', arg_available = None\<rparr>
       = Inr ([apple_json], 200)
   \<and> list_products Category_attrs shop
        \<lparr>arg_name = Some [], arg_category = Some [], arg_available = Some []\<rparr>
       = Inr ([fedora_json, apple_json], 200)"
proof -
  have up: "Category_member (py_upper ''food'') = Some FOOD"
    by code_simp
  have sel: "find_by_category shop (PCat FOOD) = [apple]" "all_products shop = shop"
    by (simp_all add: find_by_category_def all_products_def shop_def fedora_def apple_def)
  note inst = list_products_empty_parameter [of Category_attrs shop None None None "''food''" FOOD]
  from inst have imp: "''food'' \<noteq> [] \<and> Category_member (py_upper ''food'') = Some FOOD \<longrightarrow>
        list_products Category_attrs shop
          \<lparr>arg_name = Some [], arg_category = Some ''food'', arg_available = None\<rparr>
          = respond (find_by_category shop (PCat FOOD))"
    by (elim conjE)
  from inst have 2: "list_products Category_attrs shop
        \<lparr>arg_name = Some [], arg_category = Some [], arg_available = Some []\<rparr>
       = respond (all_products shop)"
    by (elim conjE)
  from imp up have 1: "list_products Category_attrs shop
        \<lparr>arg_name = Some [], arg_category = Some ''food'', arg_available = None\<rparr>
       = respond (find_by_category shop (PCat FOOD))"
    by simp
  show ?thesis
    unfolding 1 2 sel using up by (simp add: respond_shop_rows)
qed

end
